theory Spec2Isabelle
  imports Main "HOL-Library.Word"
begin

unbundle bit_operations_syntax

section \<open>The block-device layer (\<open>device_io.h\<close>, \<open>device_io.cpp\<close>, Unix branch)\<close>

type_synonym byte = "8 word"
type_synonym u64 = "64 word"

text \<open>The enumeration \<open>FilesystemType\<close> of \<open>device_io.h\<close>.\<close>

datatype FilesystemType = UNKNOWN | NTFS | APFS | EXT4 | FAT32 | HFS_PLUS

text \<open>
  Every \<open>throw DeviceIOException(msg)\<close> of \<open>device_io.cpp\<close> is one constructor, named
  after its message. \<open>AllocFailed\<close> is the \<open>std::length_error\<close> or \<open>std::bad_alloc\<close> that
  constructing the \<open>std::vector\<close> in \<open>ReadBlockVector\<close> may throw.
\<close>

datatype exn =
    FailedToOpenDevice
  | DeviceNotOpen
  | BufferPointerIsNull
  | ReadOffsetBeyondDeviceSize
  | DeviceFileDescriptorInvalid
  | FailedToSeekToOffset
  | FailedToReadFromDevice
  | AllocFailed

text \<open>
  The operating system under the class. \<open>sys_open\<close> is \<open>open(path, O_RDONLY)\<close>,
  \<open>sys_close\<close> is \<open>close(fd)\<close>, \<open>sys_size\<close> is the size query of \<open>GetSizeImpl\<close>
  (\<open>ioctl\<close>, with the \<open>lseek(fd, 0, SEEK_END)\<close> fallback), \<open>sys_lseek\<close> is
  \<open>lseek(fd, offset, SEEK_SET)\<close>, and \<open>sys_read fd offset size\<close> is \<open>read(fd, buffer, size)\<close>
  at file position \<open>offset\<close>: \<open>None\<close> when \<open>read\<close> returns a negative value, \<open>Some bs\<close>
  when it returns \<open>length bs\<close> and has stored \<open>bs\<close> at the start of the buffer.
  \<open>can_alloc n\<close> says whether a \<open>std::vector<uint8_t>\<close> of \<open>n\<close> bytes can be constructed, and
  \<open>empty_data_null\<close> whether \<open>data()\<close> of an empty vector is the null pointer (the C++
  standard leaves that open).
\<close>

record platform =
  sys_open :: "string \<Rightarrow> int"
  sys_close :: "int \<Rightarrow> int"
  sys_size :: "int \<Rightarrow> u64"
  sys_lseek :: "int \<Rightarrow> u64 \<Rightarrow> int"
  sys_read :: "int \<Rightarrow> u64 \<Rightarrow> u64 \<Rightarrow> byte list option"
  can_alloc :: "u64 \<Rightarrow> bool"
  empty_data_null :: bool

text \<open>The private fields of class \<open>DeviceIO\<close> (Unix branch), without the trailing underscore.\<close>

record DeviceIO =
  device_fd :: int
  current_device_path :: string
  device_size :: u64
  sector_size :: u64
  detected_fs :: FilesystemType
  is_open :: bool

text \<open>The constructor \<open>DeviceIO::DeviceIO()\<close>.\<close>

definition DeviceIO_new :: DeviceIO where
  "DeviceIO_new =
     \<lparr>device_fd = -1, current_device_path = [], device_size = 0, sector_size = 512,
      detected_fs = UNKNOWN, is_open = False\<rparr>"

definition CloseImpl :: "platform \<Rightarrow> DeviceIO \<Rightarrow> bool" where
  "CloseImpl P d = (if 0 \<le> device_fd d then sys_close P (device_fd d) = 0 else True)"

text \<open>\<open>DeviceIO::Close\<close>: the new state and the returned flag.\<close>

definition Close :: "platform \<Rightarrow> DeviceIO \<Rightarrow> DeviceIO \<times> bool" where
  "Close P d =
     (if \<not> is_open d then (d, True)
      else (d\<lparr>is_open := False\<rparr>, CloseImpl P d))"

definition GetSizeImpl :: "platform \<Rightarrow> DeviceIO \<Rightarrow> u64" where
  "GetSizeImpl P d = (if device_fd d < 0 then 0 else sys_size P (device_fd d))"

text \<open>
  \<open>DeviceIO::ReadImpl\<close>: the returned byte count (the \<open>ssize_t\<close> result of \<open>read\<close>,
  converted to \<open>uint64_t\<close>) together with the bytes that \<open>read\<close> stored in the buffer.
\<close>

definition ReadImpl :: "platform \<Rightarrow> DeviceIO \<Rightarrow> u64 \<Rightarrow> u64 \<Rightarrow> exn + (u64 \<times> byte list)" where
  "ReadImpl P d offset sz =
     (if device_fd d < 0 then Inl DeviceFileDescriptorInvalid
      else if sys_lseek P (device_fd d) offset < 0 then Inl FailedToSeekToOffset
      else (case sys_read P (device_fd d) offset sz of
              None \<Rightarrow> Inl FailedToReadFromDevice
            | Some bs \<Rightarrow> Inr (of_nat (length bs), bs)))"

text \<open>
  \<open>DeviceIO::ReadBlock\<close>. The buffer argument is represented by the one fact the function
  tests, whether the pointer is null. \<open>offset + size\<close> is an addition of \<open>uint64_t\<close>
  values, so it is the wrapping addition of \<open>64 word\<close>.
\<close>

definition ReadBlock ::
  "platform \<Rightarrow> DeviceIO \<Rightarrow> u64 \<Rightarrow> u64 \<Rightarrow> bool \<Rightarrow> exn + (u64 \<times> byte list)" where
  "ReadBlock P d offset sz buffer_is_null =
     (if \<not> is_open d then Inl DeviceNotOpen
      else if buffer_is_null then Inl BufferPointerIsNull
      else if offset + sz > device_size d then Inl ReadOffsetBeyondDeviceSize
      else ReadImpl P d offset sz)"

text \<open>\<open>std::vector::resize\<close> on a byte vector: truncate, or pad with zero bytes.\<close>

definition resize :: "nat \<Rightarrow> byte list \<Rightarrow> byte list" where
  "resize n xs = take n xs @ replicate (n - length xs) 0"

text \<open>
  \<open>DeviceIO::ReadBlockVector\<close>: a zero-filled vector of \<open>size\<close> bytes is the buffer, the
  bytes read overwrite its start, and the vector is resized to the count \<open>ReadBlock\<close>
  returned.
\<close>

definition ReadBlockVector :: "platform \<Rightarrow> DeviceIO \<Rightarrow> u64 \<Rightarrow> u64 \<Rightarrow> exn + byte list" where
  "ReadBlockVector P d offset sz =
     (if \<not> can_alloc P sz then Inl AllocFailed
      else (case ReadBlock P d offset sz (sz = 0 \<and> empty_data_null P) of
              Inl e \<Rightarrow> Inl e
            | Inr (bytes_read, bs) \<Rightarrow>
                Inr (resize (unat bytes_read)
                       (bs @ drop (length bs) (replicate (unat sz) 0)))))"

text \<open>
  A disk image kept in a regular file at \<open>path\<close> with the bytes \<open>content\<close>: the only
  path that opens, as descriptor 3; its size is the file length; seeking to an offset
  that is negative as an \<open>off_t\<close> fails; a read delivers the bytes from the offset on,
  up to the requested count or the end of the file.
\<close>

definition image_file :: "string \<Rightarrow> byte list \<Rightarrow> platform" where
  "image_file path content =
     \<lparr>sys_open = (\<lambda>p. if p = path then 3 else -1),
      sys_close = (\<lambda>fd. if fd = 3 then 0 else -1),
      sys_size = (\<lambda>fd. of_nat (length content)),
      sys_lseek = (\<lambda>fd off. if fd = 3 \<and> off < 2 ^ 63 then uint off else -1),
      sys_read = (\<lambda>fd off n. if fd = 3 then Some (take (unat n) (drop (unat off) content)) else None),
      can_alloc = (\<lambda>n. n < 2 ^ 63),
      empty_data_null = True\<rparr>"

section \<open>Filesystem detection (\<open>device_io.cpp\<close>)\<close>

text \<open>
  The probes read multi-byte fields through a cast of the byte pointer
  (\<open>*(uint16_t *)(&superblock[56])\<close>); on the little-endian hosts the tool targets this
  is the little-endian value of the bytes. Every use below is guarded by the size test
  that the source makes first.
\<close>

definition le16 :: "byte list \<Rightarrow> nat \<Rightarrow> 16 word" where
  "le16 v i = ucast (v ! i) OR push_bit 8 (ucast (v ! (i + 1)))"

definition le32 :: "byte list \<Rightarrow> nat \<Rightarrow> 32 word" where
  "le32 v i =
     ucast (v ! i) OR push_bit 8 (ucast (v ! (i + 1))) OR
     push_bit 16 (ucast (v ! (i + 2))) OR push_bit 24 (ucast (v ! (i + 3)))"

text \<open>The eight characters \<open>"NTFS    "\<close>.\<close>

definition ntfs_sig :: "byte list" where
  "ntfs_sig = [0x4E, 0x54, 0x46, 0x53, 0x20, 0x20, 0x20, 0x20]"

text \<open>
  Each probe is a \<open>try\<close> block followed by \<open>catch (...) { return false; }\<close>. The
  \<open>_try\<close> function is the block, which may raise; \<open>catch_all\<close> is the handler.
\<close>

definition catch_all :: "exn + bool \<Rightarrow> bool" where
  "catch_all r = (case r of Inl e \<Rightarrow> False | Inr b \<Rightarrow> b)"

definition DetectNTFS_try :: "platform \<Rightarrow> DeviceIO \<Rightarrow> exn + bool" where
  "DetectNTFS_try P d =
     (case ReadBlockVector P d 0 512 of
        Inl e \<Rightarrow> Inl e
      | Inr boot_sector \<Rightarrow>
          Inr (if length boot_sector < 512 then False
               else take 8 (drop 3 boot_sector) = ntfs_sig))"

definition DetectNTFS :: "platform \<Rightarrow> DeviceIO \<Rightarrow> bool" where
  "DetectNTFS P d = catch_all (DetectNTFS_try P d)"

definition DetectEXT4_try :: "platform \<Rightarrow> DeviceIO \<Rightarrow> exn + bool" where
  "DetectEXT4_try P d =
     (case ReadBlockVector P d 1024 256 of
        Inl e \<Rightarrow> Inl e
      | Inr superblock \<Rightarrow>
          Inr (if length superblock < 120 then False
               else le16 superblock 56 = 0xEF53))"

definition DetectEXT4 :: "platform \<Rightarrow> DeviceIO \<Rightarrow> bool" where
  "DetectEXT4 P d = catch_all (DetectEXT4_try P d)"

definition DetectAPFS_try :: "platform \<Rightarrow> DeviceIO \<Rightarrow> exn + bool" where
  "DetectAPFS_try P d =
     (case ReadBlockVector P d 0 64 of
        Inl e \<Rightarrow> Inl e
      | Inr header \<Rightarrow>
          Inr (if length header < 4 then False
               else le32 header 0 = 0x4253584E \<or> le32 header 0 = 0x42535041))"

definition DetectAPFS :: "platform \<Rightarrow> DeviceIO \<Rightarrow> bool" where
  "DetectAPFS P d = catch_all (DetectAPFS_try P d)"

definition DetectFAT32_try :: "platform \<Rightarrow> DeviceIO \<Rightarrow> exn + bool" where
  "DetectFAT32_try P d =
     (case ReadBlockVector P d 0 512 of
        Inl e \<Rightarrow> Inl e
      | Inr boot_sector \<Rightarrow>
          Inr (if length boot_sector < 512 then False
               else if le16 boot_sector 510 \<noteq> 0xAA55 then False
               else boot_sector ! 0 = 0xEB \<or> boot_sector ! 0 = 0xE9))"

definition DetectFAT32 :: "platform \<Rightarrow> DeviceIO \<Rightarrow> bool" where
  "DetectFAT32 P d = catch_all (DetectFAT32_try P d)"

definition DetectHFSPlus_try :: "platform \<Rightarrow> DeviceIO \<Rightarrow> exn + bool" where
  "DetectHFSPlus_try P d =
     (case ReadBlockVector P d 1024 512 of
        Inl e \<Rightarrow> Inl e
      | Inr header \<Rightarrow>
          Inr (if length header < 2 then False
               else le16 header 0 = 0x482B \<or> le16 header 0 = 0x4858))"

definition DetectHFSPlus :: "platform \<Rightarrow> DeviceIO \<Rightarrow> bool" where
  "DetectHFSPlus P d = catch_all (DetectHFSPlus_try P d)"

definition DetectFilesystem :: "platform \<Rightarrow> DeviceIO \<Rightarrow> FilesystemType" where
  "DetectFilesystem P d =
     (if DetectNTFS P d then NTFS
      else if DetectEXT4 P d then EXT4
      else if DetectAPFS P d then APFS
      else if DetectFAT32 P d then FAT32
      else if DetectHFSPlus P d then HFS_PLUS
      else UNKNOWN)"

text \<open>
  \<open>DeviceIO::Open\<close>: the state the object is left in, and either the exception or the
  returned flag. \<open>OpenImpl\<close> stores the descriptor and reports whether it is non-negative.
\<close>

definition OpenImpl :: "platform \<Rightarrow> DeviceIO \<Rightarrow> string \<Rightarrow> DeviceIO \<times> bool" where
  "OpenImpl P d device_path =
     (let fd = sys_open P device_path in (d\<lparr>device_fd := fd\<rparr>, 0 \<le> fd))"

definition Open :: "platform \<Rightarrow> DeviceIO \<Rightarrow> string \<Rightarrow> DeviceIO \<times> (exn + bool)" where
  "Open P d device_path =
     (let d1 = (if is_open d then fst (Close P d) else d);
          (d2, opened) = OpenImpl P d1 device_path
      in if \<not> opened then (d2, Inl FailedToOpenDevice)
         else
           let d3 = d2\<lparr>current_device_path := device_path\<rparr>;
               d4 = d3\<lparr>device_size := GetSizeImpl P d3\<rparr>;
               d5 = d4\<lparr>is_open := True\<rparr>;
               d6 = d5\<lparr>detected_fs := DetectFilesystem P d5\<rparr>
           in (d6, Inr True))"

section \<open>The parsers (\<open>ntfs_parser.cpp\<close>, \<open>apfs_parser.cpp\<close>, \<open>ext4_parser.cpp\<close>)\<close>

text \<open>
  The \<open>FileEntry\<close> that the parsers fill. Its declaration is not among the sources (the
  one in \<open>filesystem_interface.h\<close> has other fields), so the record has the fields the
  parsers assign, with unbounded numbers for the size and the two times.
\<close>

record FileEntry =
  filename :: string
  file_size :: nat
  creation_time :: nat
  modification_time :: nat
  is_directory :: bool
  is_deleted :: bool

text \<open>\<open>haystack.find(needle) != std::string::npos\<close>.\<close>

fun str_contains :: "string \<Rightarrow> string \<Rightarrow> bool" where
  "str_contains [] needle = (needle = [])"
| "str_contains (c # cs) needle =
     (take (length needle) (c # cs) = needle \<or> str_contains cs needle)"

subsection \<open>NTFS\<close>

record NTFSParser =
  ntfs_total_recoverable_files :: int
  ntfs_total_deleted_files :: int
  ntfs_last_parsed_device :: string
  ntfs_is_initialized :: bool

definition NTFSParser_new :: NTFSParser where
  "NTFSParser_new =
     \<lparr>ntfs_total_recoverable_files = 0, ntfs_total_deleted_files = 0,
      ntfs_last_parsed_device = [], ntfs_is_initialized = False\<rparr>"

definition NTFSParser_GetRecoveryStats :: "NTFSParser \<Rightarrow> int \<times> int" where
  "NTFSParser_GetRecoveryStats p =
     (ntfs_total_recoverable_files p, ntfs_total_deleted_files p)"

text \<open>
  \<open>NTFSParser::ReadBootSector\<close>: the placeholder test on the path. The two fields it
  stores in the boot sector are read by nothing.
\<close>

definition ReadBootSector :: "string \<Rightarrow> bool" where
  "ReadBootSector device_path =
     (str_contains device_path ''NTFS'' \<or> str_contains device_path ''C:'')"

definition ntfs_sample_file :: FileEntry where
  "ntfs_sample_file =
     \<lparr>filename = ''example_file.txt'', file_size = 1024, creation_time = 0,
      modification_time = 0, is_directory = False, is_deleted = False\<rparr>"

definition ParseMFT ::
  "NTFSParser \<Rightarrow> string \<Rightarrow> FileEntry list \<Rightarrow> NTFSParser \<times> FileEntry list \<times> bool" where
  "ParseMFT p device_path entries =
     (let p1 = p\<lparr>ntfs_total_recoverable_files := 0\<rparr>;
          p2 = p1\<lparr>ntfs_total_deleted_files := 0\<rparr>;
          entries1 = entries @ [ntfs_sample_file];
          p3 = p2\<lparr>ntfs_total_recoverable_files := 1\<rparr>
      in (p3, entries1, True))"

definition NTFSParser_Parse ::
  "NTFSParser \<Rightarrow> string \<Rightarrow> FileEntry list \<Rightarrow> NTFSParser \<times> FileEntry list \<times> bool" where
  "NTFSParser_Parse p device_path entries =
     (if device_path = [] then (p, entries, False)
      else
        let p1 = p\<lparr>ntfs_last_parsed_device := device_path\<rparr>
        in if \<not> ReadBootSector device_path then (p1, entries, False)
           else
             (case ParseMFT p1 device_path entries of
                (p2, entries1, ok) \<Rightarrow>
                  if \<not> ok then (p2, entries1, False)
                  else (p2\<lparr>ntfs_is_initialized := True\<rparr>, entries1, True)))"


definition IsFileDeleted :: "byte list \<Rightarrow> bool" where
  "IsFileDeleted record_data =
     (if length record_data < 0x24 then False
      else (le16 record_data 0x22 AND 0x0001) = 0)"

subsection \<open>APFS\<close>

record APFSParser =
  apfs_total_recoverable_files :: int
  apfs_total_deleted_files :: int
  apfs_available_snapshots :: "string list"
  apfs_last_parsed_device :: string
  apfs_is_initialized :: bool

definition APFSParser_new :: APFSParser where
  "APFSParser_new =
     \<lparr>apfs_total_recoverable_files = 0, apfs_total_deleted_files = 0,
      apfs_available_snapshots = [], apfs_last_parsed_device = [],
      apfs_is_initialized = False\<rparr>"

definition APFSParser_GetRecoveryStats :: "APFSParser \<Rightarrow> int \<times> int" where
  "APFSParser_GetRecoveryStats p =
     (apfs_total_recoverable_files p, apfs_total_deleted_files p)"

definition ReadContainerSuperblock :: "string \<Rightarrow> bool" where
  "ReadContainerSuperblock device_path =
     (str_contains device_path ''APFS'' \<or> str_contains device_path ''Data'')"

definition apfs_sample_file :: FileEntry where
  "apfs_sample_file =
     \<lparr>filename = ''example_document.txt'', file_size = 2048, creation_time = 0,
      modification_time = 0, is_directory = False, is_deleted = False\<rparr>"

definition ParseVolumeBTree ::
  "APFSParser \<Rightarrow> string \<Rightarrow> FileEntry list \<Rightarrow> APFSParser \<times> FileEntry list \<times> bool" where
  "ParseVolumeBTree p device_path entries =
     (let p1 = p\<lparr>apfs_total_recoverable_files := 0\<rparr>;
          p2 = p1\<lparr>apfs_total_deleted_files := 0\<rparr>;
          entries1 = entries @ [apfs_sample_file];
          p3 = p2\<lparr>apfs_total_recoverable_files := 1\<rparr>
      in (p3, entries1, True))"

definition ParseSnapshots :: "string \<Rightarrow> string list" where
  "ParseSnapshots device_path =
     [''com.apple.TimeMachine.2025-11-01-120000'', ''com.apple.TimeMachine.2025-10-31-120000'']"

text \<open>\<open>APFSParser::Parse\<close>; \<open>ParseVolumeSuperblock\<close> always returns true.\<close>

definition APFSParser_Parse ::
  "APFSParser \<Rightarrow> string \<Rightarrow> FileEntry list \<Rightarrow> APFSParser \<times> FileEntry list \<times> bool" where
  "APFSParser_Parse p device_path entries =
     (if device_path = [] then (p, entries, False)
      else
        let p1 = p\<lparr>apfs_last_parsed_device := device_path\<rparr>
        in if \<not> ReadContainerSuperblock device_path then (p1, entries, False)
           else
             (case ParseVolumeBTree p1 device_path entries of
                (p2, entries1, ok) \<Rightarrow>
                  if \<not> ok then (p2, entries1, False)
                  else (p2\<lparr>apfs_available_snapshots := ParseSnapshots device_path,
                            apfs_is_initialized := True\<rparr>, entries1, True)))"



subsection \<open>ext4\<close>

record EXT4Parser =
  ext4_total_recoverable_files :: int
  ext4_total_deleted_files :: int
  ext4_journal_info :: string
  ext4_last_parsed_device :: string
  ext4_is_initialized :: bool

definition EXT4Parser_new :: EXT4Parser where
  "EXT4Parser_new =
     \<lparr>ext4_total_recoverable_files = 0, ext4_total_deleted_files = 0,
      ext4_journal_info = [], ext4_last_parsed_device = [],
      ext4_is_initialized = False\<rparr>"

definition EXT4Parser_GetRecoveryStats :: "EXT4Parser \<Rightarrow> int \<times> int" where
  "EXT4Parser_GetRecoveryStats p =
     (ext4_total_recoverable_files p, ext4_total_deleted_files p)"

text \<open>The fields of \<open>struct EXT4Superblock\<close> that the parser writes or reads.\<close>

record EXT4Superblock =
  inodes_count :: "32 word"
  blocks_count :: "32 word"
  log_block_size :: "32 word"
  blocks_per_group :: "32 word"
  inodes_per_group :: "32 word"
  magic :: "16 word"

text \<open>
  \<open>EXT4Parser::ReadSuperblock\<close> fills its out-parameter: the placeholder test on the
  path, and five assignments. \<open>blocks_per_group\<close> is not among them, so it keeps what
  the caller's structure held.
\<close>

definition ReadSuperblock :: "string \<Rightarrow> EXT4Superblock \<Rightarrow> EXT4Superblock \<times> bool" where
  "ReadSuperblock device_path superblock =
     (if str_contains device_path ''ext4'' \<or> str_contains device_path ''sda''
         \<or> str_contains device_path ''nvme''
      then (superblock\<lparr>magic := 0xEF53, inodes_count := 1000, blocks_count := 262144,
                       log_block_size := 2, inodes_per_group := 128\<rparr>, True)
      else (superblock, False))"

text \<open>
  A group descriptor after \<open>memset(&desc, 0, sizeof(desc))\<close>; of the fields of
  \<open>struct EXT4GroupDescriptor\<close>, all zero and none read, the record keeps three.
\<close>

record EXT4GroupDescriptor =
  bg_block_bitmap :: "32 word"
  bg_inode_bitmap :: "32 word"
  bg_inode_table :: "32 word"

definition zero_desc :: EXT4GroupDescriptor where
  "zero_desc = \<lparr>bg_block_bitmap = 0, bg_inode_bitmap = 0, bg_inode_table = 0\<rparr>"

text \<open>
  \<open>EXT4Parser::ParseGroupDescriptors\<close>. The quotient is computed on \<open>uint32_t\<close> and
  stored in an \<open>int\<close>; the loop appends \<open>min(num_groups, 10)\<close> descriptors. A zero
  divisor is undefined behaviour in C++: the result is \<open>None\<close>.
\<close>

definition ParseGroupDescriptors ::
  "string \<Rightarrow> EXT4Superblock \<Rightarrow> EXT4GroupDescriptor list
     \<Rightarrow> (EXT4GroupDescriptor list \<times> bool) option" where
  "ParseGroupDescriptors device_path superblock group_descs =
     (if blocks_per_group superblock = 0 then None
      else
        let num_groups =
              sint ((blocks_count superblock + blocks_per_group superblock - 1)
                      div blocks_per_group superblock)
        in Some (group_descs @ replicate (nat (min num_groups 10)) zero_desc, True))"

definition ext4_sample_file :: FileEntry where
  "ext4_sample_file =
     \<lparr>filename = ''example_file.txt'', file_size = 4096, creation_time = 0,
      modification_time = 0, is_directory = False, is_deleted = False\<rparr>"

definition ParseInodeTable ::
  "EXT4Parser \<Rightarrow> string \<Rightarrow> EXT4Superblock \<Rightarrow> EXT4GroupDescriptor \<Rightarrow> FileEntry list
     \<Rightarrow> EXT4Parser \<times> FileEntry list \<times> bool" where
  "ParseInodeTable p device_path superblock group_desc entries =
     (let p1 = p\<lparr>ext4_total_recoverable_files := 0\<rparr>;
          p2 = p1\<lparr>ext4_total_deleted_files := 0\<rparr>;
          entries1 = entries @ [ext4_sample_file];
          p3 = p2\<lparr>ext4_total_recoverable_files := 1\<rparr>
      in (p3, entries1, True))"

text \<open>
  The loop of \<open>EXT4Parser::Parse\<close> over the block groups: the flag that
  \<open>ParseInodeTable\<close> returns is dropped (``continue on error'').
\<close>

fun parse_block_groups ::
  "EXT4Parser \<Rightarrow> string \<Rightarrow> EXT4Superblock \<Rightarrow> EXT4GroupDescriptor list \<Rightarrow> FileEntry list
     \<Rightarrow> EXT4Parser \<times> FileEntry list" where
  "parse_block_groups p device_path superblock [] entries = (p, entries)"
| "parse_block_groups p device_path superblock (group_desc # rest) entries =
     (case ParseInodeTable p device_path superblock group_desc entries of
        (p1, entries1, ok) \<Rightarrow> parse_block_groups p1 device_path superblock rest entries1)"

definition ParseJournal :: "string \<Rightarrow> EXT4Superblock \<Rightarrow> string" where
  "ParseJournal device_path superblock = ''JBD2 journal: standard ext4 recovery''"

text \<open>
  \<open>EXT4Parser::Parse\<close>. The local \<open>EXT4Superblock superblock;\<close> is not initialised;
  \<open>uninit\<close> is what its storage holds when the function is entered.
\<close>

definition EXT4Parser_Parse ::
  "EXT4Parser \<Rightarrow> EXT4Superblock \<Rightarrow> string \<Rightarrow> FileEntry list
     \<Rightarrow> (EXT4Parser \<times> FileEntry list \<times> bool) option" where
  "EXT4Parser_Parse p uninit device_path entries =
     (if device_path = [] then Some (p, entries, False)
      else
        let p1 = p\<lparr>ext4_last_parsed_device := device_path\<rparr>
        in (case ReadSuperblock device_path uninit of
              (superblock, False) \<Rightarrow> Some (p1, entries, False)
            | (superblock, True) \<Rightarrow>
                (case ParseGroupDescriptors device_path superblock [] of
                   None \<Rightarrow> None
                 | Some (group_descs, ok) \<Rightarrow>
                     if \<not> ok then Some (p1, entries, False)
                     else
                       (case parse_block_groups p1 device_path superblock group_descs entries of
                          (p2, entries1) \<Rightarrow>
                            Some (p2\<lparr>ext4_journal_info := ParseJournal device_path superblock,
                                      ext4_is_initialized := True\<rparr>, entries1, True)))))"



section \<open>The adapter (\<open>device_io_adapter.h\<close>, \<open>device_io_adapter.cpp\<close>)\<close>

text \<open>
  \<open>device_io\<close> is never null after construction; a parser pointer that is still null
  is \<open>None\<close>.
\<close>

record DeviceIOAdapter =
  device_io :: DeviceIO
  ntfs_parser :: "NTFSParser option"
  apfs_parser :: "APFSParser option"
  ext4_parser :: "EXT4Parser option"
  last_total_files :: int
  last_deleted_files :: int

definition DeviceIOAdapter_new :: DeviceIOAdapter where
  "DeviceIOAdapter_new =
     \<lparr>device_io = DeviceIO_new, ntfs_parser = None, apfs_parser = None,
      ext4_parser = None, last_total_files = 0, last_deleted_files = 0\<rparr>"

definition OpenDevice :: "platform \<Rightarrow> DeviceIOAdapter \<Rightarrow> string \<Rightarrow> DeviceIOAdapter \<times> bool" where
  "OpenDevice P a device_path =
     (case Open P (device_io a) device_path of
        (d, Inl e) \<Rightarrow> (a\<lparr>device_io := d\<rparr>, False)
      | (d, Inr r) \<Rightarrow> (a\<lparr>device_io := d\<rparr>, r))"

definition Adapter_DetectFilesystem :: "platform \<Rightarrow> DeviceIOAdapter \<Rightarrow> FilesystemType" where
  "Adapter_DetectFilesystem P a =
     (if \<not> is_open (device_io a) then UNKNOWN else DetectFilesystem P (device_io a))"

definition InitializeParser :: "DeviceIOAdapter \<Rightarrow> FilesystemType \<Rightarrow> DeviceIOAdapter \<times> bool" where
  "InitializeParser a fs_type =
     (case fs_type of
        NTFS \<Rightarrow> ((if ntfs_parser a = None then a\<lparr>ntfs_parser := Some NTFSParser_new\<rparr> else a), True)
      | APFS \<Rightarrow> ((if apfs_parser a = None then a\<lparr>apfs_parser := Some APFSParser_new\<rparr> else a), True)
      | EXT4 \<Rightarrow> ((if ext4_parser a = None then a\<lparr>ext4_parser := Some EXT4Parser_new\<rparr> else a), True)
      | _ \<Rightarrow> (a, False))"

definition ParseNTFS ::
  "DeviceIOAdapter \<Rightarrow> FileEntry list \<Rightarrow> DeviceIOAdapter \<times> FileEntry list \<times> bool" where
  "ParseNTFS a entries =
     (case ntfs_parser a of
        None \<Rightarrow> (a, entries, False)
      | Some p \<Rightarrow>
          (case NTFSParser_Parse p (current_device_path (device_io a)) entries of
             (p1, entries1, r) \<Rightarrow> (a\<lparr>ntfs_parser := Some p1\<rparr>, entries1, r)))"

definition ParseAPFS ::
  "DeviceIOAdapter \<Rightarrow> FileEntry list \<Rightarrow> DeviceIOAdapter \<times> FileEntry list \<times> bool" where
  "ParseAPFS a entries =
     (case apfs_parser a of
        None \<Rightarrow> (a, entries, False)
      | Some p \<Rightarrow>
          (case APFSParser_Parse p (current_device_path (device_io a)) entries of
             (p1, entries1, r) \<Rightarrow> (a\<lparr>apfs_parser := Some p1\<rparr>, entries1, r)))"

definition ParseEXT4 ::
  "DeviceIOAdapter \<Rightarrow> EXT4Superblock \<Rightarrow> FileEntry list
     \<Rightarrow> (DeviceIOAdapter \<times> FileEntry list \<times> bool) option" where
  "ParseEXT4 a uninit entries =
     (case ext4_parser a of
        None \<Rightarrow> Some (a, entries, False)
      | Some p \<Rightarrow>
          (case EXT4Parser_Parse p uninit (current_device_path (device_io a)) entries of
             None \<Rightarrow> None
           | Some (p1, entries1, r) \<Rightarrow> Some (a\<lparr>ext4_parser := Some p1\<rparr>, entries1, r)))"

text \<open>
  The statistics block at the end of \<open>ParseDevice\<close>. \<open>entries.size()\<close> is narrowed to
  \<open>int\<close>; the deleted entries are counted one by one, which is exact below \<open>2 ^ 31\<close>.
\<close>

definition collect_statistics :: "DeviceIOAdapter \<Rightarrow> FileEntry list \<Rightarrow> DeviceIOAdapter" where
  "collect_statistics a entries =
     a\<lparr>last_total_files := sint (word_of_nat (length entries) :: 32 word),
       last_deleted_files := int (length (filter is_deleted entries))\<rparr>"

text \<open>
  \<open>DeviceIOAdapter::ParseDevice\<close>; \<open>None\<close> only when the ext4 parser divides by zero.
  \<open>uninit\<close> is passed on to \<open>EXT4Parser::Parse\<close>.
\<close>

definition ParseDevice ::
  "platform \<Rightarrow> DeviceIOAdapter \<Rightarrow> EXT4Superblock \<Rightarrow> FileEntry list
     \<Rightarrow> (DeviceIOAdapter \<times> FileEntry list \<times> bool) option" where
  "ParseDevice P a uninit entries =
     (if \<not> is_open (device_io a) then Some (a, entries, False)
      else
        let fs_type = Adapter_DetectFilesystem P a
        in if fs_type = UNKNOWN then Some (a, entries, False)
           else
             (case InitializeParser a fs_type of
                (a1, False) \<Rightarrow> Some (a1, entries, False)
              | (a1, True) \<Rightarrow>
                  (case (case fs_type of
                           NTFS \<Rightarrow> Some (ParseNTFS a1 entries)
                         | APFS \<Rightarrow> Some (ParseAPFS a1 entries)
                         | EXT4 \<Rightarrow> ParseEXT4 a1 uninit entries
                         | _ \<Rightarrow> Some (a1, entries, False)) of
                     None \<Rightarrow> None
                   | Some (a2, entries1, result) \<Rightarrow>
                       Some ((if result then collect_statistics a2 entries1 else a2),
                             entries1, result))))"

definition Adapter_GetRecoveryStats :: "DeviceIOAdapter \<Rightarrow> int \<times> int" where
  "Adapter_GetRecoveryStats a = (last_total_files a, last_deleted_files a)"

section \<open>Vocabulary of the claims and concrete devices\<close>

text \<open>
  \<open>attached c d\<close>: the handle \<open>d\<close> is open on the image file with content \<open>c\<close>, as
  \<open>Open\<close> leaves it (descriptor 3, the cached size is the file length, which fits an
  \<open>off_t\<close>).
\<close>

definition attached :: "byte list \<Rightarrow> DeviceIO \<Rightarrow> bool" where
  "attached c d \<longleftrightarrow>
     is_open d \<and> device_fd d = 3 \<and> device_size d = of_nat (length c) \<and> length c < 2 ^ 63"

text \<open>
  The mock device of \<open>device_io_test.cpp\<close> reduced to the scenario of the specification:
  one MiB of zero bytes with the ext4 magic \<open>0xEF53\<close> at byte offset 1080.
\<close>

definition test_path :: string where
  "test_path = ''/tmp/test_device.bin''"

definition test_image :: "byte list" where
  "test_image = replicate 1080 0 @ [0x53, 0xEF] @ replicate 1047494 0"

definition test_platform :: platform where
  "test_platform = image_file test_path test_image"

definition test_device :: DeviceIO where
  "test_device = fst (Open test_platform DeviceIO_new test_path)"

definition test_adapter :: DeviceIOAdapter where
  "test_adapter = fst (OpenDevice test_platform DeviceIOAdapter_new test_path)"

text \<open>A content for the uninitialised superblock of \<open>EXT4Parser::Parse\<close>: all zero.\<close>

definition zero_superblock :: EXT4Superblock where
  "zero_superblock =
     \<lparr>inodes_count = 0, blocks_count = 0, log_block_size = 0, blocks_per_group = 0,
      inodes_per_group = 0, magic = 0\<rparr>"

text \<open>
  An image of 1280 bytes with the container magic \<open>NXSB\<close> at offset 0 and the ext4 magic
  at offset 1080, and an image of 16 zero bytes.
\<close>

definition apfs_ext_image :: "byte list" where
  "apfs_ext_image = [0x4E, 0x58, 0x53, 0x42] @ replicate 1076 0 @ [0x53, 0xEF] @ replicate 198 0"

definition tiny_image :: "byte list" where
  "tiny_image = replicate 16 0"

definition apfs_ext_device :: DeviceIO where
  "apfs_ext_device =
     fst (Open (image_file ''/tmp/apfs_ext.img'' apfs_ext_image) DeviceIO_new ''/tmp/apfs_ext.img'')"

definition tiny_device :: DeviceIO where
  "tiny_device = fst (Open (image_file ''/tmp/tiny.img'' tiny_image) DeviceIO_new ''/tmp/tiny.img'')"

text \<open>A container image of 64 bytes: \<open>NXSB\<close> and zero bytes.\<close>

definition apfs_image :: "byte list" where
  "apfs_image = [0x4E, 0x58, 0x53, 0x42] @ replicate 60 0"

definition apfs_device :: DeviceIO where
  "apfs_device = fst (Open (image_file ''/tmp/apfs.img'' apfs_image) DeviceIO_new ''/tmp/apfs.img'')"

text \<open>The container image under a name that the placeholder container test accepts.\<close>

definition apfs_path :: string where
  "apfs_path = ''/Volumes/Data.img''"

definition apfs_platform :: platform where
  "apfs_platform = image_file apfs_path apfs_image"

definition apfs_adapter :: DeviceIOAdapter where
  "apfs_adapter = fst (OpenDevice apfs_platform DeviceIOAdapter_new apfs_path)"




text \<open>
  A FIFO: it opens, but every \<open>lseek\<close> fails, so the fallback
  \<open>size = lseek(fd, 0, SEEK_END)\<close> of \<open>GetSizeImpl\<close> stores \<open>(uint64_t)-1\<close>.
\<close>

definition fifo :: platform where
  "fifo =
     \<lparr>sys_open = (\<lambda>p. 3), sys_close = (\<lambda>fd. 0), sys_size = (\<lambda>fd. - 1),
      sys_lseek = (\<lambda>fd off. - 1), sys_read = (\<lambda>fd off n. None),
      can_alloc = (\<lambda>n. n < 2 ^ 63), empty_data_null = True\<rparr>"

definition fifo_device :: DeviceIO where
  "fifo_device = fst (Open fifo DeviceIO_new ''/tmp/fifo'')"

text \<open>
  A device of 4096 zero bytes whose \<open>read\<close> delivers at most 512 bytes per call, which
  POSIX allows \<open>read\<close> to do.
\<close>

definition chunked :: platform where
  "chunked =
     \<lparr>sys_open = (\<lambda>p. 3), sys_close = (\<lambda>fd. 0), sys_size = (\<lambda>fd. 4096),
      sys_lseek = (\<lambda>fd off. if off < 2 ^ 63 then uint off else - 1),
      sys_read = (\<lambda>fd off n. Some (replicate (min (min (unat n) 512) (4096 - unat off)) 0)),
      can_alloc = (\<lambda>n. n < 2 ^ 63), empty_data_null = True\<rparr>"

definition chunked_device :: DeviceIO where
  "chunked_device = fst (Open chunked DeviceIO_new ''/dev/chunked'')"

text \<open>
  The statistics claims speak of the records of the device's metadata table. For an NTFS
  volume the table is the list of its raw MFT records. A record counts as valid when it
  is long enough for \<open>ParseFileRecord\<close> and starts with \<open>FILE_RECORD_SIGNATURE\<close>
  (\<open>0x454C4946\<close>, \<open>ntfs_parser.h\<close>), and as deletion-marked when \<open>IsFileDeleted\<close> holds
  of it. \<open>file_record flags\<close> is a 48-byte record with the signature and the given low
  byte of the flags field; \<open>corrupt_record\<close> has no signature.
\<close>

definition mft_record_valid :: "byte list \<Rightarrow> bool" where
  "mft_record_valid r \<longleftrightarrow> 0x30 \<le> length r \<and> le32 r 0 = 0x454C4946"

definition table_total_found :: "byte list list \<Rightarrow> int" where
  "table_total_found table = int (length (filter mft_record_valid table))"

definition table_total_deleted :: "byte list list \<Rightarrow> int" where
  "table_total_deleted table =
     int (length (filter IsFileDeleted (filter mft_record_valid table)))"

definition file_record :: "byte \<Rightarrow> byte list" where
  "file_record flags = [0x46, 0x49, 0x4C, 0x45] @ replicate 30 0 @ [flags, 0] @ replicate 12 0"

definition corrupt_record :: "byte list" where
  "corrupt_record = replicate 48 0"

text \<open>
  An NTFS volume image of 1024 bytes at a path that the placeholder boot-sector test
  accepts: the boot sector with the signature, then the two records of \<open>ntfs_table\<close>, one
  in use and one deletion-marked. \<open>corrupted_table\<close> is a table of three records of
  which the middle one has a bad signature.
\<close>

definition ntfs_boot_sector :: "byte list" where
  "ntfs_boot_sector = [0xEB, 0x52, 0x90] @ ntfs_sig @ replicate 501 0"

definition ntfs_table :: "byte list list" where
  "ntfs_table = [file_record 1, file_record 0]"

definition ntfs_image :: "byte list" where
  "ntfs_image = ntfs_boot_sector @ concat ntfs_table @ replicate 416 0"

definition ntfs_path :: string where
  "ntfs_path = ''/tmp/NTFS_volume.img''"

definition ntfs_platform :: platform where
  "ntfs_platform = image_file ntfs_path ntfs_image"

definition ntfs_adapter :: DeviceIOAdapter where
  "ntfs_adapter = fst (OpenDevice ntfs_platform DeviceIOAdapter_new ntfs_path)"


section \<open>Lemmas on reads, byte order and image files\<close>

lemma ReadImpl_never_out_of_range:
  "ReadImpl P d offset sz \<noteq> Inl ReadOffsetBeyondDeviceSize"
  by (simp add: ReadImpl_def split: option.split)

lemma resize_exact:
  "length bs \<le> n \<Longrightarrow> resize (length bs) (bs @ drop (length bs) (replicate n 0)) = bs"
  by (simp add: resize_def)

lemma image_ReadBlockVector:
  assumes "is_open d" and "device_fd d = 3" and "device_size d = of_nat (length c)"
    and "length c < 2 ^ 63" and "sz \<noteq> 0" and "unat off + unat sz \<le> length c"
  shows "ReadBlockVector (image_file path c) d off sz = Inr (take (unat sz) (drop (unat off) c))"
proof -
  let ?bs = "take (unat sz) (drop (unat off) c)"
  have len: "length ?bs = unat sz" using assms(6) by simp
  have szlt: "unat sz < 2 ^ 63" and offlt: "unat off < 2 ^ 63"
    using assms(4,6) by linarith+
  have alloc: "sz < 2 ^ 63" and seek: "off < 2 ^ 63"
    using szlt offlt by (simp_all add: word_less_nat_alt)
  have usize: "unat (device_size d) = length c"
    using assms(3,4) by (simp add: unat_of_nat)
  have "unat (off + sz) = unat off + unat sz"
    using assms(4,6) by (simp add: unat_word_ariths)
  then have inrange: "\<not> device_size d < off + sz"
    using assms(6) usize by (simp add: word_less_nat_alt)
  have impl: "ReadImpl (image_file path c) d off sz = Inr (sz, ?bs)"
    using assms(2) seek len by (simp add: ReadImpl_def image_file_def)
  have "ReadBlock (image_file path c) d off sz False = Inr (sz, ?bs)"
    using assms(1) inrange impl by (simp add: ReadBlock_def)
  moreover have "resize (unat sz) (?bs @ drop (length ?bs) (replicate (unat sz) 0)) = ?bs"
    using resize_exact [of ?bs "unat sz"] len by simp
  ultimately show ?thesis
    using alloc assms(5) by (simp add: ReadBlockVector_def image_file_def)
qed

lemma ReadBlockVector_beyond:
  assumes "is_open d" and "unat (device_size d) < unat off + unat sz"
    and "unat off + unat sz < 2 ^ 64" and "sz \<noteq> 0"
  shows "ReadBlockVector P d off sz = Inl ReadOffsetBeyondDeviceSize
       \<or> ReadBlockVector P d off sz = Inl AllocFailed"
proof -
  have "unat (off + sz) = unat off + unat sz"
    using assms(3) by (simp add: unat_word_ariths)
  then have "device_size d < off + sz"
    using assms(2) by (simp add: word_less_nat_alt)
  then show ?thesis
    using assms(1,4) by (simp add: ReadBlockVector_def ReadBlock_def)
qed




lemma le32_byte3: "ucast (drop_bit 24 (le32 v i)) = v ! (i + 3)"
  unfolding le32_def
  by (rule bit_word_eqI) (auto simp: bit_simps dest: bit_imp_le_length)





lemma le16_take_drop:
  "i + 1 < n \<Longrightarrow> off + n \<le> length c \<Longrightarrow> le16 (take n (drop off c)) i = le16 c (off + i)"
  by (simp add: le16_def add.assoc)

lemma le32_take_drop:
  "i + 3 < n \<Longrightarrow> off + n \<le> length c \<Longrightarrow> le32 (take n (drop off c)) i = le32 c (off + i)"
  by (simp add: le32_def add.assoc)

lemma attached_read:
  assumes "attached c d" and "sz \<noteq> 0" and "unat off + unat sz \<le> length c"
  shows "ReadBlockVector (image_file path c) d off sz = Inr (take (unat sz) (drop (unat off) c))"
  using assms image_ReadBlockVector [of d c sz off path] by (simp add: attached_def)

lemma attached_read_beyond:
  assumes "attached c d" and "sz \<noteq> 0" and "length c < unat off + unat sz"
    and "unat off + unat sz < 2 ^ 64"
  shows "\<exists>e. ReadBlockVector (image_file path c) d off sz = Inl e"
proof -
  have "unat (device_size d) = length c"
    using assms(1) by (simp add: attached_def unat_of_nat)
  then show ?thesis
    using ReadBlockVector_beyond [of d off sz "image_file path c"] assms
    by (auto simp: attached_def)
qed

lemma image_DetectNTFS:
  assumes "attached c d"
  shows "DetectNTFS (image_file path c) d = (512 \<le> length c \<and> take 8 (drop 3 c) = ntfs_sig)"
proof (cases "512 \<le> length c")
  case True
  then have "ReadBlockVector (image_file path c) d 0 512 = Inr (take 512 c)"
    using attached_read [OF assms, of 512 0 path] by simp
  moreover have "take 8 (drop 3 (take 512 c)) = take 8 (drop 3 c)"
    using True by (simp add: drop_take)
  ultimately show ?thesis
    using True by (simp add: DetectNTFS_def DetectNTFS_try_def catch_all_def)
next
  case False
  then obtain e where "ReadBlockVector (image_file path c) d 0 512 = Inl e"
    using attached_read_beyond [OF assms, of 512 0 path] by auto
  then show ?thesis
    using False by (simp add: DetectNTFS_def DetectNTFS_try_def catch_all_def)
qed

lemma image_DetectEXT4:
  assumes "attached c d"
  shows "DetectEXT4 (image_file path c) d = (1280 \<le> length c \<and> le16 c 1080 = 0xEF53)"
proof (cases "1280 \<le> length c")
  case True
  then have "ReadBlockVector (image_file path c) d 1024 256 = Inr (take 256 (drop 1024 c))"
    using attached_read [OF assms, of 256 1024 path] by simp
  moreover have "le16 (take 256 (drop 1024 c)) 56 = le16 c 1080"
    using True le16_take_drop [of 56 256 1024 c] by simp
  ultimately show ?thesis
    using True by (simp add: DetectEXT4_def DetectEXT4_try_def catch_all_def)
next
  case False
  then obtain e where "ReadBlockVector (image_file path c) d 1024 256 = Inl e"
    using attached_read_beyond [OF assms, of 256 1024 path] by auto
  then show ?thesis
    using False by (simp add: DetectEXT4_def DetectEXT4_try_def catch_all_def)
qed

lemma image_DetectAPFS:
  assumes "attached c d"
  shows "DetectAPFS (image_file path c) d =
           (64 \<le> length c \<and> (le32 c 0 = 0x4253584E \<or> le32 c 0 = 0x42535041))"
proof (cases "64 \<le> length c")
  case True
  then have "ReadBlockVector (image_file path c) d 0 64 = Inr (take 64 c)"
    using attached_read [OF assms, of 64 0 path] by simp
  moreover have "le32 (take 64 c) 0 = le32 c 0"
    using True le32_take_drop [of 0 64 0 c] by simp
  ultimately show ?thesis
    using True by (simp add: DetectAPFS_def DetectAPFS_try_def catch_all_def)
next
  case False
  then obtain e where "ReadBlockVector (image_file path c) d 0 64 = Inl e"
    using attached_read_beyond [OF assms, of 64 0 path] by auto
  then show ?thesis
    using False by (simp add: DetectAPFS_def DetectAPFS_try_def catch_all_def)
qed

lemma image_DetectFAT32:
  assumes "attached c d"
  shows "DetectFAT32 (image_file path c) d =
           (512 \<le> length c \<and> le16 c 510 = 0xAA55 \<and> (c ! 0 = 0xEB \<or> c ! 0 = 0xE9))"
proof (cases "512 \<le> length c")
  case True
  then have "ReadBlockVector (image_file path c) d 0 512 = Inr (take 512 c)"
    using attached_read [OF assms, of 512 0 path] by simp
  moreover have "le16 (take 512 c) 510 = le16 c 510"
    using True le16_take_drop [of 510 512 0 c] by simp
  ultimately show ?thesis
    using True by (simp add: DetectFAT32_def DetectFAT32_try_def catch_all_def)
next
  case False
  then obtain e where "ReadBlockVector (image_file path c) d 0 512 = Inl e"
    using attached_read_beyond [OF assms, of 512 0 path] by auto
  then show ?thesis
    using False by (simp add: DetectFAT32_def DetectFAT32_try_def catch_all_def)
qed

lemma image_DetectHFSPlus:
  assumes "attached c d"
  shows "DetectHFSPlus (image_file path c) d =
           (1536 \<le> length c \<and> (le16 c 1024 = 0x482B \<or> le16 c 1024 = 0x4858))"
proof (cases "1536 \<le> length c")
  case True
  then have "ReadBlockVector (image_file path c) d 1024 512 = Inr (take 512 (drop 1024 c))"
    using attached_read [OF assms, of 512 1024 path] by simp
  moreover have "le16 (take 512 (drop 1024 c)) 0 = le16 c 1024"
    using True le16_take_drop [of 0 512 1024 c] by simp
  ultimately show ?thesis
    using True by (simp add: DetectHFSPlus_def DetectHFSPlus_try_def catch_all_def)
next
  case False
  then obtain e where "ReadBlockVector (image_file path c) d 1024 512 = Inl e"
    using attached_read_beyond [OF assms, of 512 1024 path] by auto
  then show ?thesis
    using False by (simp add: DetectHFSPlus_def DetectHFSPlus_try_def catch_all_def)
qed

lemma apfs_magic_excludes_ntfs:
  assumes "le32 c 0 = 0x4253584E \<or> le32 c 0 = 0x42535041"
  shows "take 8 (drop 3 c) \<noteq> ntfs_sig"
proof
  assume sig: "take 8 (drop 3 c) = ntfs_sig"
  then have "length (take 8 (drop 3 c)) = 8" by (simp add: ntfs_sig_def)
  then have "3 < length c" by simp
  then have "take 8 (drop 3 c) ! 0 = c ! 3" by simp
  then have n: "c ! 3 = 0x4E" using sig by (simp add: ntfs_sig_def)
  from assms have "c ! 3 = 0x42"
    using le32_byte3 [of c 0] by auto
  with n show False by simp
qed

lemma image_Open:
  assumes "length c < 2 ^ 63"
  shows "attached c (fst (Open (image_file path c) d0 path))"
    and "current_device_path (fst (Open (image_file path c) d0 path)) = path"
    and "snd (Open (image_file path c) d0 path) = Inr True"
  using assms
  by (simp_all add: Open_def OpenImpl_def Let_def attached_def GetSizeImpl_def image_file_def)

lemma test_image_length: "length test_image = 1048576"
  by (simp add: test_image_def)

lemma test_device_attached: "attached test_image test_device"
  unfolding test_device_def test_platform_def
  by (rule image_Open(1)) (simp add: test_image_length)

lemma test_image_magic: "le16 test_image 1080 = 0xEF53"
  by (simp add: le16_def test_image_def nth_append)

lemma test_image_no_ntfs: "take 8 (drop 3 test_image) \<noteq> ntfs_sig"
proof
  assume "take 8 (drop 3 test_image) = ntfs_sig"
  then have "take 8 (drop 3 test_image) ! 0 = ntfs_sig ! 0" by simp
  then show False by (simp add: test_image_def ntfs_sig_def)
qed

lemma test_detect: "DetectFilesystem test_platform test_device = EXT4"
  unfolding test_platform_def DetectFilesystem_def
  using test_device_attached test_image_magic test_image_no_ntfs
  by (simp add: image_DetectNTFS image_DetectEXT4 test_image_length)

lemma fifo_device_state:
  "fifo_device = \<lparr>device_fd = 3, current_device_path = ''/tmp/fifo'', device_size = - 1,
      sector_size = 512, detected_fs = UNKNOWN, is_open = True\<rparr>"
  by (simp add: fifo_device_def Open_def OpenImpl_def Let_def GetSizeImpl_def fifo_def
      DeviceIO_new_def DetectFilesystem_def DetectNTFS_def DetectNTFS_try_def
      DetectEXT4_def DetectEXT4_try_def DetectAPFS_def DetectAPFS_try_def
      DetectFAT32_def DetectFAT32_try_def DetectHFSPlus_def DetectHFSPlus_try_def
      catch_all_def ReadBlockVector_def ReadBlock_def ReadImpl_def)

lemma test_device_size: "device_size test_device = 1048576"
  using test_device_attached by (simp add: attached_def test_image_length)

lemma ntfs_sig_at_3: "take 8 (drop 3 c) = ntfs_sig \<Longrightarrow> c ! 3 = 0x4E"
proof -
  assume sig: "take 8 (drop 3 c) = ntfs_sig"
  then have "length (take 8 (drop 3 c)) = 8" by (simp add: ntfs_sig_def)
  then have "3 < length c" by simp
  then have "take 8 (drop 3 c) ! 0 = c ! 3" by simp
  then show ?thesis using sig by (simp add: ntfs_sig_def)
qed

lemma zeros_not_ntfs_sig: "replicate n 0 \<noteq> ntfs_sig"
proof
  assume "replicate n 0 = ntfs_sig"
  then have "(0x4E :: byte) \<in> set (replicate n 0)" by (simp add: ntfs_sig_def)
  then show False by simp
qed

lemma chunked_device_state:
  "chunked_device = \<lparr>device_fd = 3, current_device_path = ''/dev/chunked'', device_size = 4096,
      sector_size = 512, detected_fs = UNKNOWN, is_open = True\<rparr>"
  by (simp add: chunked_device_def Open_def OpenImpl_def Let_def GetSizeImpl_def chunked_def
      DeviceIO_new_def DetectFilesystem_def DetectNTFS_def DetectNTFS_try_def
      DetectEXT4_def DetectEXT4_try_def DetectAPFS_def DetectAPFS_try_def
      DetectFAT32_def DetectFAT32_try_def DetectHFSPlus_def DetectHFSPlus_try_def
      catch_all_def ReadBlockVector_def ReadBlock_def ReadImpl_def resize_def le16_def le32_def
      zeros_not_ntfs_sig)

lemma probe_read_beyond:
  assumes "is_open d" and "unat (device_size d) < unat off + unat sz"
    and "unat off + unat sz < 2 ^ 64" and "sz \<noteq> 0"
  shows "\<exists>e. ReadBlockVector P d off sz = Inl e"
  using ReadBlockVector_beyond [OF assms] by auto

lemma tiny_device_attached: "attached tiny_image tiny_device"
  unfolding tiny_device_def by (rule image_Open(1)) (simp add: tiny_image_def)

lemma apfs_ext_device_attached: "attached apfs_ext_image apfs_ext_device"
  unfolding apfs_ext_device_def by (rule image_Open(1)) (simp add: apfs_ext_image_def)

lemma apfs_device_attached: "attached apfs_image apfs_device"
  unfolding apfs_device_def by (rule image_Open(1)) (simp add: apfs_image_def)

lemma apfs_ext_image_facts:
  "length apfs_ext_image = 1280" "le32 apfs_ext_image 0 = 0x4253584E"
  "le16 apfs_ext_image 1080 = 0xEF53"
  by (simp_all add: apfs_ext_image_def le32_def le16_def nth_append)

section \<open>The bounds check of \<open>ReadBlock\<close> wraps around\<close>

text \<open>
  Claim C10, amended. \<open>ReadBlock\<close> adds offset and size as \<open>uint64_t\<close> before it
  compares the sum with the device size. For every open device whose size \<open>s\<close> is at
  least 1 and at most \<open>2^64 - 2\<close> there are an offset greater than \<open>s\<close> and a size of at
  least 1 whose sum wraps modulo \<open>2^64\<close> to a value not above \<open>s\<close>; for them \<open>ReadBlock\<close>
  raises no out-of-range error and hands the offset to the platform read \<open>ReadImpl\<close>.
\<close>

theorem ReadBlock_wraps:
  assumes "is_open d" and "1 \<le> device_size d" and "device_size d \<noteq> - 1"
  shows "\<exists>offset sz. device_size d < offset \<and> 1 \<le> sz
           \<and> 2 ^ 64 \<le> unat offset + unat sz
           \<and> offset + sz \<le> device_size d
           \<and> ReadBlock P d offset sz False \<noteq> Inl ReadOffsetBeyondDeviceSize
           \<and> ReadBlock P d offset sz False = ReadImpl P d offset sz"
proof -
  let ?o = "- 1 :: u64"
  have lt: "device_size d < ?o"
    using assms(3) by (simp add: word_order.not_eq_extremum)
  have sum: "?o + 1 = (0 :: u64)" by simp
  have rb: "ReadBlock P d ?o 1 False = ReadImpl P d ?o 1"
    using assms(1) by (simp add: ReadBlock_def)
  have "2 ^ 64 \<le> unat ?o + unat (1 :: u64)" by (simp add: unsigned_minus_1_eq_mask mask_eq_exp_minus_1)
  with lt sum rb show ?thesis
    using ReadImpl_never_out_of_range [of P d ?o 1]
    by (intro exI [of _ ?o] exI [of _ "1 :: u64"]) simp
qed

theorem ReadBlock_wraps_witness:
  "is_open test_device \<and> 1 \<le> device_size test_device \<and> device_size test_device \<noteq> - 1
   \<and> (\<exists>offset sz. device_size test_device < offset \<and> 1 \<le> sz
          \<and> 2 ^ 64 \<le> unat offset + unat sz
          \<and> offset + sz \<le> device_size test_device
          \<and> ReadBlock test_platform test_device offset sz False \<noteq> Inl ReadOffsetBeyondDeviceSize
          \<and> ReadBlock test_platform test_device offset sz False
              = ReadImpl test_platform test_device offset sz)"
proof -
  have o: "is_open test_device"
    using test_device_attached by (simp add: attached_def)
  have l: "1 \<le> device_size test_device" and m: "device_size test_device \<noteq> - 1"
    by (simp_all add: test_device_size)
  show ?thesis
    using o l m ReadBlock_wraps [OF o l m, of test_platform] by blast
qed

text \<open>
  Claim C10 as stated, for every size \<open>s \<ge> 1\<close>, fails at the largest size: a handle
  opened on a FIFO caches the size \<open>2^64 - 1\<close>, and no \<open>uint64_t\<close> offset is greater.
\<close>

theorem ReadBlock_wraps_counterexample:
  "is_open fifo_device \<and> 1 \<le> device_size fifo_device
   \<and> \<not> (\<exists>offset sz. device_size fifo_device < offset \<and> 1 \<le> sz
            \<and> offset + sz \<le> device_size fifo_device
            \<and> ReadBlock fifo fifo_device offset sz False \<noteq> Inl ReadOffsetBeyondDeviceSize)"
  by (simp add: fifo_device_state)

section \<open>What \<open>ReadBlock\<close> checks and returns\<close>

text \<open>
  Claim C2, amended. For every open device of size \<open>s\<close>, a non-null buffer, and every
  offset \<open>o\<close> and length \<open>l\<close> whose sum does not exceed \<open>2^64 - 1\<close>: if \<open>o + l > s\<close>,
  \<open>ReadBlock\<close> fails with the out-of-range error; if \<open>o + l \<le> s\<close>, it performs the
  platform read \<open>ReadImpl\<close> and returns the number of bytes that read delivered, which
  is \<open>l\<close> when the platform delivers the whole request.
\<close>

theorem ReadBlock_bounds:
  assumes "is_open d" and "\<not> buffer_is_null" and "unat offset + unat sz < 2 ^ 64"
  shows "(unat (device_size d) < unat offset + unat sz \<longrightarrow>
            ReadBlock P d offset sz buffer_is_null = Inl ReadOffsetBeyondDeviceSize)
       \<and> (unat offset + unat sz \<le> unat (device_size d) \<longrightarrow>
            ReadBlock P d offset sz buffer_is_null = ReadImpl P d offset sz)
       \<and> (unat offset + unat sz \<le> unat (device_size d) \<and> 0 \<le> device_fd d
            \<and> 0 \<le> sys_lseek P (device_fd d) offset
            \<and> sys_read P (device_fd d) offset sz = Some bs \<longrightarrow>
            ReadBlock P d offset sz buffer_is_null = Inr (of_nat (length bs), bs)
            \<and> (length bs = unat sz \<longrightarrow> (of_nat (length bs) :: u64) = sz))"
proof -
  have "unat (offset + sz) = unat offset + unat sz"
    using assms(3) by (simp add: unat_word_ariths)
  then have "(offset + sz > device_size d) = (unat (device_size d) < unat offset + unat sz)"
    by (simp add: word_less_nat_alt)
  then show ?thesis using assms(1,2) by (auto simp: ReadBlock_def ReadImpl_def)
qed

theorem ReadBlock_bounds_witness:
  "is_open test_device \<and> unat (16 :: u64) + unat (32 :: u64) < 2 ^ 64
   \<and> unat (16 :: u64) + unat (32 :: u64) \<le> unat (device_size test_device)
   \<and> ReadBlock test_platform test_device 16 32 False = Inr (32, replicate 32 0)
   \<and> unat (device_size test_device) < unat (1048576 :: u64) + unat (512 :: u64)
   \<and> ReadBlock test_platform test_device 1048576 512 False = Inl ReadOffsetBeyondDeviceSize"
proof -
  have o: "is_open test_device" and fd: "device_fd test_device = 3"
    using test_device_attached by (simp_all add: attached_def)
  have n: "\<not> False" by simp
  have r: "sys_read test_platform 3 16 32 = Some (replicate 32 0)"
    by (simp add: test_platform_def image_file_def test_image_def)
  have s: "0 \<le> sys_lseek test_platform 3 16"
    by (simp add: test_platform_def image_file_def)
  have b1: "unat (16 :: u64) + unat (32 :: u64) < 2 ^ 64" by simp
  have b2: "unat (1048576 :: u64) + unat (512 :: u64) < 2 ^ 64" by simp
  note inside = ReadBlock_bounds [OF o n b1, of test_platform "replicate 32 0", THEN conjunct2, THEN conjunct2]
  note beyond = ReadBlock_bounds [OF o n b2, of test_platform "[]", THEN conjunct1]
  have "ReadBlock test_platform test_device 16 32 False = Inr (32, replicate 32 0)"
    using inside fd r s by (simp add: test_device_size)
  moreover have "ReadBlock test_platform test_device 1048576 512 False = Inl ReadOffsetBeyondDeviceSize"
    using beyond by (simp add: test_device_size)
  ultimately show ?thesis
    using o by (simp add: test_device_size)
qed

text \<open>
  Claim C2 as stated fails in both halves. On the one-MiB image, offset \<open>2^64 - 1\<close> with
  length 1 lies beyond the device, yet the wrapped sum 0 passes the check and the error
  raised is the seek failure of \<open>ReadImpl\<close>, not the out-of-range error. On a device
  whose \<open>read\<close> delivers 512 bytes per call, a read of 1024 bytes inside the device
  returns 512.
\<close>

theorem ReadBlock_bounds_counterexample:
  "is_open test_device
   \<and> unat (device_size test_device) < unat (- 1 :: u64) + unat (1 :: u64)
   \<and> ReadBlock test_platform test_device (- 1) 1 False = Inl FailedToSeekToOffset
   \<and> is_open chunked_device
   \<and> unat (0 :: u64) + unat (1024 :: u64) \<le> unat (device_size chunked_device)
   \<and> ReadBlock chunked chunked_device 0 1024 False = Inr (512, replicate 512 0)"
proof -
  have a: "is_open test_device" "device_fd test_device = 3"
    using test_device_attached by (simp_all add: attached_def)
  have "ReadBlock test_platform test_device (- 1) 1 False = Inl FailedToSeekToOffset"
    using a by (simp add: ReadBlock_def ReadImpl_def test_device_size test_platform_def image_file_def)
  moreover have "unat (device_size test_device) < unat (- 1 :: u64) + unat (1 :: u64)"
    by (simp add: test_device_size unsigned_minus_1_eq_mask mask_eq_exp_minus_1)
  moreover have "ReadBlock chunked chunked_device 0 1024 False = Inr (512, replicate 512 0)"
    by (simp add: chunked_device_state ReadBlock_def ReadImpl_def chunked_def)
  ultimately show ?thesis
    using a by (simp add: chunked_device_state)
qed

section \<open>Short reads\<close>

text \<open>
  Claim C7, amended. For every read on an open device where the platform returns fewer
  bytes than requested without reporting an error, \<open>ReadBlock\<close> returns the short count
  and \<open>ReadBlockVector\<close> succeeds with the vector resized to the bytes actually read.
  No short-read error exists; a caller sees the short read in the size of the result,
  which is what the detection probes test.
\<close>

theorem short_read_truncated:
  assumes "is_open d" and "can_alloc P sz" and "sz \<noteq> 0" and "offset + sz \<le> device_size d"
    and "0 \<le> device_fd d" and "0 \<le> sys_lseek P (device_fd d) offset"
    and "sys_read P (device_fd d) offset sz = Some bs" and "length bs < unat sz"
  shows "ReadBlock P d offset sz False = Inr (of_nat (length bs), bs)
       \<and> ReadBlockVector P d offset sz = Inr bs"
proof -
  have rb: "ReadBlock P d offset sz False = Inr (of_nat (length bs), bs)"
    using assms(1,4,5,6,7) by (simp add: ReadBlock_def ReadImpl_def not_less)
  have "length bs < 2 ^ 64"
    using assms(8) unsigned_less [of sz, where 'a = nat] by simp
  then have n: "unat (of_nat (length bs) :: u64) = length bs"
    by (simp add: unat_of_nat)
  have "resize (length bs) (bs @ drop (length bs) (replicate (unat sz) 0)) = bs"
    using assms(8) by (intro resize_exact) simp
  then show ?thesis
    using rb n assms(2,3) by (simp add: ReadBlockVector_def)
qed

theorem short_read_truncated_witness:
  "is_open chunked_device \<and> can_alloc chunked 2048 \<and> (2048 :: u64) \<noteq> 0
   \<and> (1024 :: u64) + 2048 \<le> device_size chunked_device
   \<and> 0 \<le> device_fd chunked_device \<and> 0 \<le> sys_lseek chunked (device_fd chunked_device) 1024
   \<and> sys_read chunked (device_fd chunked_device) 1024 2048 = Some (replicate 512 0)
   \<and> length (replicate 512 (0 :: byte)) < unat (2048 :: u64)
   \<and> ReadBlock chunked chunked_device 1024 2048 False = Inr (512, replicate 512 0)
   \<and> ReadBlockVector chunked chunked_device 1024 2048 = Inr (replicate 512 0)"
proof -
  have 1: "is_open chunked_device" by (simp add: chunked_device_state)
  have 2: "can_alloc chunked 2048" by (simp add: chunked_def)
  have 3: "(2048 :: u64) \<noteq> 0" by simp
  have 4: "(1024 :: u64) + 2048 \<le> device_size chunked_device"
    by (simp add: chunked_device_state)
  have 5: "0 \<le> device_fd chunked_device" by (simp add: chunked_device_state)
  have 6: "0 \<le> sys_lseek chunked (device_fd chunked_device) 1024"
    by (simp add: chunked_def)
  have 7: "sys_read chunked (device_fd chunked_device) 1024 2048 = Some (replicate 512 0)"
    by (simp add: chunked_def)
  have 8: "length (replicate 512 (0 :: byte)) < unat (2048 :: u64)" by simp
  show ?thesis
    using 1 2 3 4 5 6 7 8 short_read_truncated [OF 1 2 3 4 5 6 7 8] by simp
qed

text \<open>
  Claim C7 as stated asks for an error and for a vector of the requested length. On the
  device whose \<open>read\<close> delivers 512 bytes per call, \<open>ReadBlockVector(0, 1024)\<close> succeeds
  with 512 bytes.
\<close>

theorem short_read_truncated_counterexample:
  "is_open chunked_device
   \<and> sys_read chunked (device_fd chunked_device) 0 1024 = Some (replicate 512 0)
   \<and> ReadBlockVector chunked chunked_device 0 1024 = Inr (replicate 512 0)"
  by (simp add: chunked_device_state ReadBlockVector_def ReadBlock_def ReadImpl_def chunked_def
      resize_def)

section \<open>Opening an open handle\<close>

text \<open>
  Claim C8, amended. For every device handle on which \<open>Open\<close> has succeeded and \<open>Close\<close>
  has not since been called, a second call to \<open>Open\<close> closes the existing session and
  then behaves as on the closed handle: when the platform opens the path, the call
  returns true and the handle holds the new session; when it does not, the call raises
  ``Failed to open device'' and the handle is left closed. There is no already-open error.
\<close>

theorem Open_reopens:
  assumes "is_open d"
  shows "Open P d path = Open P (fst (Close P d)) path
       \<and> (0 \<le> sys_open P path \<longrightarrow>
            snd (Open P d path) = Inr True \<and> is_open (fst (Open P d path))
            \<and> current_device_path (fst (Open P d path)) = path
            \<and> device_fd (fst (Open P d path)) = sys_open P path)
       \<and> (sys_open P path < 0 \<longrightarrow>
            snd (Open P d path) = Inl FailedToOpenDevice
            \<and> \<not> is_open (fst (Open P d path)))"
  using assms by (simp add: Open_def Close_def OpenImpl_def Let_def)

theorem Open_reopens_witness:
  "is_open test_device \<and> 0 \<le> sys_open test_platform test_path
   \<and> snd (Open test_platform test_device test_path) = Inr True
   \<and> is_open (fst (Open test_platform test_device test_path))
   \<and> current_device_path (fst (Open test_platform test_device test_path)) = test_path
   \<and> sys_open test_platform ''/dev/none'' < 0
   \<and> snd (Open test_platform test_device ''/dev/none'') = Inl FailedToOpenDevice
   \<and> \<not> is_open (fst (Open test_platform test_device ''/dev/none''))"
proof -
  have o: "is_open test_device"
    using test_device_attached by (simp add: attached_def)
  have y: "0 \<le> sys_open test_platform test_path"
    by (simp add: test_platform_def image_file_def)
  have n: "sys_open test_platform ''/dev/none'' < 0"
    by (simp add: test_platform_def image_file_def test_path_def)
  note opens = Open_reopens [OF o, of test_platform test_path, THEN conjunct2, THEN conjunct1]
  note fails = Open_reopens [OF o, of test_platform "''/dev/none''", THEN conjunct2, THEN conjunct2]
  show ?thesis
    using o y n opens fails by simp
qed

text \<open>
  Claim C8 as stated asks the second \<open>Open\<close> to fail. On the handle that is open on the
  one-MiB image, opening the same path again returns true.
\<close>

theorem Open_reopens_counterexample:
  "is_open test_device \<and> current_device_path test_device = test_path
   \<and> snd (Open test_platform test_device test_path) = Inr True"
proof -
  have len: "length test_image < 2 ^ 63" by (simp add: test_image_length)
  have "is_open test_device"
    using test_device_attached by (simp add: attached_def)
  moreover have "current_device_path test_device = test_path"
    unfolding test_device_def test_platform_def by (rule image_Open(2) [OF len])
  moreover have "snd (Open test_platform test_device test_path) = Inr True"
    unfolding test_platform_def by (rule image_Open(3) [OF len])
  ultimately show ?thesis by simp
qed

section \<open>Detection never fails\<close>

text \<open>
  Claim C9. Format detection is total and degrades gracefully. Each probe is a function
  into \<open>bool\<close> because its \<open>try\<close> block is closed by \<open>catch (...)\<close>, and
  \<open>DetectFilesystem\<close> calls nothing but the probes, so no exception leaves it. For every
  device: a probe whose read fails reports no match; on an open device smaller than the
  offset 1024 the two probes that read there report no match while the other three still
  decide the result; a device smaller than every probe range, a closed device, and a
  device all of whose reads fail are detected as \<open>UNKNOWN\<close>; and whenever no probe
  matches the result is \<open>UNKNOWN\<close>.
\<close>

theorem Detect_degrades_gracefully:
  "(\<forall>e. ReadBlockVector P d 0 512 = Inl e \<longrightarrow> \<not> DetectNTFS P d \<and> \<not> DetectFAT32 P d)
   \<and> (\<forall>e. ReadBlockVector P d 1024 256 = Inl e \<longrightarrow> \<not> DetectEXT4 P d)
   \<and> (\<forall>e. ReadBlockVector P d 0 64 = Inl e \<longrightarrow> \<not> DetectAPFS P d)
   \<and> (\<forall>e. ReadBlockVector P d 1024 512 = Inl e \<longrightarrow> \<not> DetectHFSPlus P d)
   \<and> (is_open d \<and> device_size d < 1024 \<longrightarrow>
         \<not> DetectEXT4 P d \<and> \<not> DetectHFSPlus P d
         \<and> DetectFilesystem P d =
             (if DetectNTFS P d then NTFS else if DetectAPFS P d then APFS
              else if DetectFAT32 P d then FAT32 else UNKNOWN))
   \<and> (is_open d \<and> device_size d < 64 \<longrightarrow> DetectFilesystem P d = UNKNOWN)
   \<and> (\<not> is_open d \<longrightarrow> DetectFilesystem P d = UNKNOWN)
   \<and> ((\<forall>off sz. \<exists>e. ReadBlockVector P d off sz = Inl e) \<longrightarrow> DetectFilesystem P d = UNKNOWN)
   \<and> (\<not> DetectNTFS P d \<and> \<not> DetectEXT4 P d \<and> \<not> DetectAPFS P d \<and> \<not> DetectFAT32 P d
         \<and> \<not> DetectHFSPlus P d \<longrightarrow> DetectFilesystem P d = UNKNOWN)"
proof -
  have fail:
    "\<And>e. ReadBlockVector P d 0 512 = Inl e \<Longrightarrow> \<not> DetectNTFS P d \<and> \<not> DetectFAT32 P d"
    "\<And>e. ReadBlockVector P d 1024 256 = Inl e \<Longrightarrow> \<not> DetectEXT4 P d"
    "\<And>e. ReadBlockVector P d 0 64 = Inl e \<Longrightarrow> \<not> DetectAPFS P d"
    "\<And>e. ReadBlockVector P d 1024 512 = Inl e \<Longrightarrow> \<not> DetectHFSPlus P d"
    by (simp_all add: DetectNTFS_def DetectNTFS_try_def DetectFAT32_def DetectFAT32_try_def
        DetectEXT4_def DetectEXT4_try_def DetectAPFS_def DetectAPFS_try_def
        DetectHFSPlus_def DetectHFSPlus_try_def catch_all_def)
  have small: "\<not> DetectEXT4 P d \<and> \<not> DetectHFSPlus P d"
    if "is_open d" and "device_size d < 1024"
  proof -
    have u: "unat (device_size d) < 1024"
      using that(2) by (simp add: word_less_nat_alt)
    have "\<exists>e. ReadBlockVector P d 1024 256 = Inl e"
      using u by (intro probe_read_beyond [OF that(1)]) simp_all
    moreover have "\<exists>e. ReadBlockVector P d 1024 512 = Inl e"
      using u by (intro probe_read_beyond [OF that(1)]) simp_all
    ultimately show ?thesis using fail(2,4) by blast
  qed
  have tiny: "DetectFilesystem P d = UNKNOWN" if "is_open d" and "device_size d < 64"
  proof -
    have u: "unat (device_size d) < 64"
      using that(2) by (simp add: word_less_nat_alt)
    have "\<exists>e. ReadBlockVector P d 0 512 = Inl e"
      using u by (intro probe_read_beyond [OF that(1)]) simp_all
    moreover have "\<exists>e. ReadBlockVector P d 0 64 = Inl e"
      using u by (intro probe_read_beyond [OF that(1)]) simp_all
    moreover have "device_size d < 1024"
      using u by (simp add: word_less_nat_alt)
    ultimately show ?thesis
      using fail(1,3) small [OF that(1)] by (auto simp: DetectFilesystem_def)
  qed
  have closed: "DetectFilesystem P d = UNKNOWN" if "\<not> is_open d"
    using that
    by (simp add: DetectFilesystem_def DetectNTFS_def DetectNTFS_try_def DetectFAT32_def
        DetectFAT32_try_def DetectEXT4_def DetectEXT4_try_def DetectAPFS_def DetectAPFS_try_def
        DetectHFSPlus_def DetectHFSPlus_try_def catch_all_def ReadBlockVector_def ReadBlock_def)
  have allfail: "DetectFilesystem P d = UNKNOWN"
    if "\<forall>off sz. \<exists>e. ReadBlockVector P d off sz = Inl e"
    using that fail by (metis DetectFilesystem_def)
  show ?thesis
    using fail small tiny closed allfail by (auto simp: DetectFilesystem_def)
qed

theorem Detect_degrades_gracefully_witness:
  "is_open tiny_device \<and> device_size tiny_device < 64 \<and> device_size tiny_device < 1024
   \<and> ReadBlockVector (image_file ''/tmp/tiny.img'' tiny_image) tiny_device 0 512
       = Inl ReadOffsetBeyondDeviceSize
   \<and> ReadBlockVector (image_file ''/tmp/tiny.img'' tiny_image) tiny_device 1024 256
       = Inl ReadOffsetBeyondDeviceSize
   \<and> ReadBlockVector (image_file ''/tmp/tiny.img'' tiny_image) tiny_device 0 64
       = Inl ReadOffsetBeyondDeviceSize
   \<and> ReadBlockVector (image_file ''/tmp/tiny.img'' tiny_image) tiny_device 1024 512
       = Inl ReadOffsetBeyondDeviceSize
   \<and> \<not> DetectNTFS (image_file ''/tmp/tiny.img'' tiny_image) tiny_device
   \<and> \<not> DetectEXT4 (image_file ''/tmp/tiny.img'' tiny_image) tiny_device
   \<and> \<not> DetectAPFS (image_file ''/tmp/tiny.img'' tiny_image) tiny_device
   \<and> \<not> DetectFAT32 (image_file ''/tmp/tiny.img'' tiny_image) tiny_device
   \<and> \<not> DetectHFSPlus (image_file ''/tmp/tiny.img'' tiny_image) tiny_device
   \<and> DetectFilesystem (image_file ''/tmp/tiny.img'' tiny_image) tiny_device = UNKNOWN
   \<and> \<not> is_open DeviceIO_new
   \<and> (\<forall>off sz. \<exists>e. ReadBlockVector fifo DeviceIO_new off sz = Inl e)
   \<and> DetectFilesystem fifo DeviceIO_new = UNKNOWN"
proof -
  let ?P = "image_file ''/tmp/tiny.img'' tiny_image"
  have o: "is_open tiny_device" and sz: "device_size tiny_device = 16"
    using tiny_device_attached by (simp_all add: attached_def tiny_image_def)
  have r: "ReadBlockVector ?P tiny_device 0 512 = Inl ReadOffsetBeyondDeviceSize"
    "ReadBlockVector ?P tiny_device 1024 256 = Inl ReadOffsetBeyondDeviceSize"
    "ReadBlockVector ?P tiny_device 0 64 = Inl ReadOffsetBeyondDeviceSize"
    "ReadBlockVector ?P tiny_device 1024 512 = Inl ReadOffsetBeyondDeviceSize"
    using o sz by (simp_all add: ReadBlockVector_def ReadBlock_def image_file_def)
  have c: "\<not> is_open DeviceIO_new" by (simp add: DeviceIO_new_def)
  have f: "\<forall>off sz. \<exists>e. ReadBlockVector fifo DeviceIO_new off sz = Inl e"
    using c by (simp add: ReadBlockVector_def ReadBlock_def)
  have "DetectFilesystem fifo DeviceIO_new = UNKNOWN"
    using f Detect_degrades_gracefully [of fifo DeviceIO_new] by blast
  then show ?thesis
    using o sz r c f Detect_degrades_gracefully [of ?P tiny_device] by simp
qed

section \<open>The order of the probes\<close>

text \<open>
  Claim C4, amended. For every image of at least 64 bytes whose first four bytes are the
  APFS container magic: detection returns EXT-like when the image also carries the ext4
  magic at byte offset 1080 inside a readable superblock range (at least 1280 bytes), and
  APFS-like otherwise. The APFS probe runs after the NTFS and the ext4 probe. An NTFS
  signature at byte offset 3 cannot stand beside the APFS magic, since both cover byte 3.
\<close>

theorem APFS_probed_after_EXT4:
  assumes "attached c d" and "64 \<le> length c" and "le32 c 0 = 0x4253584E"
  shows "DetectFilesystem (image_file path c) d =
           (if 1280 \<le> length c \<and> le16 c 1080 = 0xEF53 then EXT4 else APFS)
       \<and> take 8 (drop 3 c) \<noteq> ntfs_sig"
proof -
  have n: "take 8 (drop 3 c) \<noteq> ntfs_sig"
    using assms(3) by (intro apfs_magic_excludes_ntfs) simp
  then have "\<not> DetectNTFS (image_file path c) d"
    by (simp add: image_DetectNTFS [OF assms(1)])
  moreover have "DetectAPFS (image_file path c) d"
    using assms(2,3) by (simp add: image_DetectAPFS [OF assms(1)])
  ultimately show ?thesis
    using n by (simp add: DetectFilesystem_def image_DetectEXT4 [OF assms(1)])
qed

theorem APFS_probed_after_EXT4_witness:
  "attached apfs_image apfs_device \<and> 64 \<le> length apfs_image \<and> le32 apfs_image 0 = 0x4253584E
   \<and> DetectFilesystem (image_file ''/tmp/apfs.img'' apfs_image) apfs_device = APFS
   \<and> attached apfs_ext_image apfs_ext_device \<and> 64 \<le> length apfs_ext_image
   \<and> le32 apfs_ext_image 0 = 0x4253584E
   \<and> DetectFilesystem (image_file ''/tmp/other.img'' apfs_ext_image) apfs_ext_device = EXT4"
proof -
  have l: "64 \<le> length apfs_image" and m: "le32 apfs_image 0 = 0x4253584E"
    by (simp_all add: apfs_image_def le32_def)
  have l': "64 \<le> length apfs_ext_image" by (simp add: apfs_ext_image_facts)
  note a = APFS_probed_after_EXT4 [OF apfs_device_attached l m, of "''/tmp/apfs.img''"]
  note b = APFS_probed_after_EXT4 [OF apfs_ext_device_attached l' apfs_ext_image_facts(2),
      of "''/tmp/other.img''"]
  have "DetectFilesystem (image_file ''/tmp/apfs.img'' apfs_image) apfs_device = APFS"
    using a by (simp add: apfs_image_def)
  moreover have "DetectFilesystem (image_file ''/tmp/other.img'' apfs_ext_image) apfs_ext_device = EXT4"
    using b by (simp add: apfs_ext_image_facts)
  ultimately show ?thesis
    using apfs_device_attached apfs_ext_device_attached l m l' apfs_ext_image_facts(2) by simp
qed

text \<open>
  Claim C4 as stated has the APFS probe win. The image of 1280 bytes with \<open>NXSB\<close> at
  offset 0 and \<open>0xEF53\<close> at offset 1080 is detected as ext4.
\<close>

theorem APFS_probed_after_EXT4_counterexample:
  "le32 apfs_ext_image 0 = 0x4253584E \<and> le16 apfs_ext_image 1080 = 0xEF53
   \<and> is_open apfs_ext_device
   \<and> DetectFilesystem (image_file ''/tmp/apfs_ext.img'' apfs_ext_image) apfs_ext_device = EXT4"
proof -
  have "take 8 (drop 3 apfs_ext_image) \<noteq> ntfs_sig"
    by (intro apfs_magic_excludes_ntfs) (simp add: apfs_ext_image_facts)
  then show ?thesis
    using apfs_ext_device_attached
    by (simp add: DetectFilesystem_def image_DetectNTFS image_DetectEXT4 apfs_ext_image_facts
        attached_def)
qed

section \<open>The deletion predicates\<close>





section \<open>Lemmas on the parsers and the adapter\<close>

lemma NTFSParser_Parse_accepted:
  assumes "device_path \<noteq> []" and "ReadBootSector device_path"
  shows "NTFSParser_Parse p device_path entries =
           (p\<lparr>ntfs_total_recoverable_files := 1, ntfs_total_deleted_files := 0,
              ntfs_last_parsed_device := device_path, ntfs_is_initialized := True\<rparr>,
            entries @ [ntfs_sample_file], True)"
  using assms by (simp add: NTFSParser_Parse_def ParseMFT_def Let_def)


lemma APFSParser_Parse_accepted:
  assumes "device_path \<noteq> []" and "ReadContainerSuperblock device_path"
  shows "APFSParser_Parse p device_path entries =
           (p\<lparr>apfs_total_recoverable_files := 1, apfs_total_deleted_files := 0,
              apfs_last_parsed_device := device_path,
              apfs_available_snapshots := ParseSnapshots device_path,
              apfs_is_initialized := True\<rparr>,
            entries @ [apfs_sample_file], True)"
  using assms by (simp add: APFSParser_Parse_def ParseVolumeBTree_def Let_def)



lemma EXT4Parser_Parse_rejected:
  assumes "\<not> snd (ReadSuperblock device_path uninit)"
  shows "\<exists>p'. EXT4Parser_Parse p uninit device_path entries = Some (p', entries, False)
         \<and> EXT4Parser_GetRecoveryStats p' = EXT4Parser_GetRecoveryStats p"
  using assms
  by (auto simp: EXT4Parser_Parse_def ReadSuperblock_def Let_def EXT4Parser_GetRecoveryStats_def
      split: if_splits)

lemma sint_of_nat_32: "n < 2 ^ 31 \<Longrightarrow> sint (word_of_nat n :: 32 word) = int n"
  by (simp add: signed_of_nat signed_take_bit_int_eq_self_iff)

lemma ParseDevice_success:
  assumes "ParseDevice P a uninit entries = Some (a', entries', True)"
  shows "\<exists>a2. a' = collect_statistics a2 entries'"
  using assms
  by (auto simp: ParseDevice_def Let_def split: if_splits prod.splits option.splits bool.splits)

lemma ParseDevice_NTFS:
  assumes "ParseDevice P a uninit entries = Some (a', entries', True)"
    and "Adapter_DetectFilesystem P a = NTFS"
  shows "entries' = entries @ [ntfs_sample_file]
       \<and> map_option NTFSParser_GetRecoveryStats (ntfs_parser a') = Some (1, 0)"
proof -
  let ?path = "current_device_path (device_io a)"
  have acc: "?path \<noteq> [] \<and> ReadBootSector ?path"
    using assms
    by (auto simp: ParseDevice_def Let_def InitializeParser_def ParseNTFS_def
        NTFSParser_Parse_def split: if_splits prod.splits option.splits)
  show ?thesis
    using assms acc
    by (auto simp: ParseDevice_def Let_def InitializeParser_def ParseNTFS_def
        NTFSParser_Parse_accepted collect_statistics_def NTFSParser_GetRecoveryStats_def
        split: if_splits option.splits)
qed

lemma ParseDevice_APFS:
  assumes "ParseDevice P a uninit entries = Some (a', entries', True)"
    and "Adapter_DetectFilesystem P a = APFS"
  shows "entries' = entries @ [apfs_sample_file]
       \<and> map_option APFSParser_GetRecoveryStats (apfs_parser a') = Some (1, 0)"
proof -
  let ?path = "current_device_path (device_io a)"
  have acc: "?path \<noteq> [] \<and> ReadContainerSuperblock ?path"
    using assms
    by (auto simp: ParseDevice_def Let_def InitializeParser_def ParseAPFS_def
        APFSParser_Parse_def split: if_splits prod.splits option.splits)
  show ?thesis
    using assms acc
    by (auto simp: ParseDevice_def Let_def InitializeParser_def ParseAPFS_def
        APFSParser_Parse_accepted collect_statistics_def APFSParser_GetRecoveryStats_def
        split: if_splits option.splits)
qed

lemma OpenDevice_image:
  assumes "length c < 2 ^ 63"
  shows "OpenDevice (image_file path c) a path =
           (a\<lparr>device_io := fst (Open (image_file path c) (device_io a) path)\<rparr>, True)"
  using image_Open(3) [OF assms, of path "device_io a"]
  by (cases "Open (image_file path c) (device_io a) path") (simp add: OpenDevice_def)

lemma opened_adapter:
  assumes "length c < 2 ^ 63"
  shows "attached c (device_io (fst (OpenDevice (image_file path c) DeviceIOAdapter_new path)))"
    and "current_device_path (device_io (fst (OpenDevice (image_file path c) DeviceIOAdapter_new path))) = path"
    and "ntfs_parser (fst (OpenDevice (image_file path c) DeviceIOAdapter_new path)) = None"
    and "apfs_parser (fst (OpenDevice (image_file path c) DeviceIOAdapter_new path)) = None"
    and "ext4_parser (fst (OpenDevice (image_file path c) DeviceIOAdapter_new path)) = None"
    and "Adapter_GetRecoveryStats (fst (OpenDevice (image_file path c) DeviceIOAdapter_new path)) = (0, 0)"
  using image_Open(1,2) [OF assms, of path "device_io DeviceIOAdapter_new"]
  by (simp_all add: OpenDevice_image [OF assms] DeviceIOAdapter_new_def Adapter_GetRecoveryStats_def)

lemma attached_detect_test_image:
  assumes "attached test_image d"
  shows "DetectFilesystem (image_file path test_image) d = EXT4"
  using assms test_image_magic test_image_no_ntfs
  by (simp add: DetectFilesystem_def image_DetectNTFS image_DetectEXT4 test_image_length)

lemma ntfs_image_facts:
  "length ntfs_image = 1024" "take 8 (drop 3 ntfs_image) = ntfs_sig"
  by (simp_all add: ntfs_image_def ntfs_boot_sector_def ntfs_table_def file_record_def ntfs_sig_def)

lemma path_tests:
  "ReadBootSector ntfs_path" "ntfs_path \<noteq> []"
  "\<not> snd (ReadSuperblock test_path uninit)"
  by (simp_all add: ReadBootSector_def ReadSuperblock_def ntfs_path_def test_path_def)

lemma ntfs_adapter_facts:
  "attached ntfs_image (device_io ntfs_adapter)"
  "current_device_path (device_io ntfs_adapter) = ntfs_path"
  "ntfs_parser ntfs_adapter = None"
  unfolding ntfs_adapter_def ntfs_platform_def
  by (rule opened_adapter, simp add: ntfs_image_facts)+

lemma ntfs_adapter_detect: "Adapter_DetectFilesystem ntfs_platform ntfs_adapter = NTFS"
  using ntfs_adapter_facts(1)
  by (simp add: Adapter_DetectFilesystem_def DetectFilesystem_def ntfs_platform_def
      image_DetectNTFS ntfs_image_facts attached_def)

lemma ntfs_adapter_parse:
  "\<exists>a'. ParseDevice ntfs_platform ntfs_adapter uninit [] = Some (a', [ntfs_sample_file], True)
        \<and> Adapter_GetRecoveryStats a' = (1, 0)
        \<and> map_option NTFSParser_GetRecoveryStats (ntfs_parser a') = Some (1, 0)"
  using ntfs_adapter_facts ntfs_adapter_detect
  by (simp add: ParseDevice_def Let_def InitializeParser_def ParseNTFS_def attached_def
      NTFSParser_Parse_accepted path_tests collect_statistics_def Adapter_GetRecoveryStats_def
      NTFSParser_GetRecoveryStats_def ntfs_sample_file_def)

lemma table_facts:
  "mft_record_valid (file_record z)" "\<not> mft_record_valid corrupt_record"
  "IsFileDeleted (file_record 0)" "\<not> IsFileDeleted (file_record 1)"
  "length corrupt_record = 48"
  by (simp_all add: mft_record_valid_def IsFileDeleted_def file_record_def corrupt_record_def
      le32_def le16_def nth_append)

lemma ParseDevice_EXT4_rejected:
  assumes "is_open (device_io a)" and "DetectFilesystem P (device_io a) = EXT4"
    and "\<not> snd (ReadSuperblock (current_device_path (device_io a)) uninit)"
  shows "\<exists>a'. ParseDevice P a uninit entries = Some (a', entries, False)
         \<and> Adapter_GetRecoveryStats a' = Adapter_GetRecoveryStats a"
proof -
  let ?a1 = "fst (InitializeParser a EXT4)"
  obtain p where p: "ext4_parser ?a1 = Some p"
    by (cases "ext4_parser a") (auto simp: InitializeParser_def)
  obtain p' where "EXT4Parser_Parse p uninit (current_device_path (device_io a)) entries
      = Some (p', entries, False)"
    using EXT4Parser_Parse_rejected [OF assms(3), of p entries] by blast
  then show ?thesis
    using assms(1,2) p
    by (auto simp: ParseDevice_def Let_def Adapter_DetectFilesystem_def InitializeParser_def
        ParseEXT4_def Adapter_GetRecoveryStats_def split: if_splits)
qed

lemma test_adapter_facts:
  "attached test_image (device_io test_adapter)"
  "current_device_path (device_io test_adapter) = test_path"
  "Adapter_GetRecoveryStats test_adapter = (0, 0)"
  unfolding test_adapter_def test_platform_def
  by (rule opened_adapter, simp add: test_image_length)+

lemma apfs_adapter_facts:
  "attached apfs_image (device_io apfs_adapter)"
  "current_device_path (device_io apfs_adapter) = apfs_path"
  "apfs_parser apfs_adapter = None"
  unfolding apfs_adapter_def apfs_platform_def
  by (rule opened_adapter, simp add: apfs_image_def)+

lemma apfs_image_facts: "length apfs_image = 64" "le32 apfs_image 0 = 0x4253584E"
  by (simp_all add: apfs_image_def le32_def)

lemma apfs_adapter_detect: "Adapter_DetectFilesystem apfs_platform apfs_adapter = APFS"
proof -
  have "take 8 (drop 3 apfs_image) \<noteq> ntfs_sig"
    by (intro apfs_magic_excludes_ntfs) (simp add: apfs_image_facts)
  then show ?thesis
    using apfs_adapter_facts(1)
    by (simp add: Adapter_DetectFilesystem_def DetectFilesystem_def apfs_platform_def
        image_DetectNTFS image_DetectEXT4 image_DetectAPFS apfs_image_facts attached_def)
qed

lemma apfs_path_tests: "ReadContainerSuperblock apfs_path" "apfs_path \<noteq> []"
  by (simp_all add: ReadContainerSuperblock_def apfs_path_def)

lemma apfs_adapter_parse:
  "\<exists>a'. ParseDevice apfs_platform apfs_adapter uninit [] = Some (a', [apfs_sample_file], True)"
  using apfs_adapter_facts apfs_adapter_detect
  by (simp add: ParseDevice_def Let_def InitializeParser_def ParseAPFS_def attached_def
      APFSParser_Parse_accepted apfs_path_tests)

section \<open>The statistics of a parse pass\<close>

text \<open>
  Claim C1, amended. For every completed parse pass through the adapter (\<open>ParseDevice\<close>
  returns true) whose output vector holds fewer than \<open>2^31\<close> records, the pair of the
  adapter's \<open>GetRecoveryStats\<close> is the number of records in the output vector and the
  number of those marked deleted. When the NTFS or the APFS parser ran, the pass appended
  exactly one live sample record and that parser's \<open>GetRecoveryStats\<close> is \<open>(1, 0)\<close>. The
  counts are over the records that the placeholder parsers emit, not over the metadata
  table of the device, which they do not read.
\<close>

theorem statistics_count_emitted_records:
  assumes "ParseDevice P a uninit entries = Some (a', entries', True)"
    and "length entries' < 2 ^ 31"
  shows "Adapter_GetRecoveryStats a' =
           (int (length entries'), int (length (filter is_deleted entries')))
       \<and> (Adapter_DetectFilesystem P a = NTFS \<longrightarrow>
            entries' = entries @ [ntfs_sample_file]
            \<and> map_option NTFSParser_GetRecoveryStats (ntfs_parser a') = Some (1, 0))
       \<and> (Adapter_DetectFilesystem P a = APFS \<longrightarrow>
            entries' = entries @ [apfs_sample_file]
            \<and> map_option APFSParser_GetRecoveryStats (apfs_parser a') = Some (1, 0))"
proof -
  obtain a2 where "a' = collect_statistics a2 entries'"
    using ParseDevice_success [OF assms(1)] by blast
  then have "Adapter_GetRecoveryStats a' =
           (int (length entries'), int (length (filter is_deleted entries')))"
    using assms(2) by (simp add: Adapter_GetRecoveryStats_def collect_statistics_def sint_of_nat_32)
  then show ?thesis
    using ParseDevice_NTFS [OF assms(1)] ParseDevice_APFS [OF assms(1)] by blast
qed

theorem statistics_count_emitted_records_witness:
  "(\<exists>a'. ParseDevice ntfs_platform ntfs_adapter zero_superblock [] = Some (a', [ntfs_sample_file], True)
        \<and> length [ntfs_sample_file] < 2 ^ 31
        \<and> Adapter_DetectFilesystem ntfs_platform ntfs_adapter = NTFS
        \<and> Adapter_GetRecoveryStats a' = (1, 0)
        \<and> map_option NTFSParser_GetRecoveryStats (ntfs_parser a') = Some (1, 0))
   \<and> (\<exists>a'. ParseDevice apfs_platform apfs_adapter zero_superblock [] = Some (a', [apfs_sample_file], True)
        \<and> length [apfs_sample_file] < 2 ^ 31
        \<and> Adapter_DetectFilesystem apfs_platform apfs_adapter = APFS
        \<and> Adapter_GetRecoveryStats a' = (1, 0)
        \<and> map_option APFSParser_GetRecoveryStats (apfs_parser a') = Some (1, 0))"
proof -
  obtain a' where p: "ParseDevice ntfs_platform ntfs_adapter zero_superblock [] = Some (a', [ntfs_sample_file], True)"
    using ntfs_adapter_parse [of zero_superblock] by blast
  obtain b' where q: "ParseDevice apfs_platform apfs_adapter zero_superblock [] = Some (b', [apfs_sample_file], True)"
    using apfs_adapter_parse [of zero_superblock] by blast
  have l: "length [ntfs_sample_file] < 2 ^ 31" and m: "length [apfs_sample_file] < 2 ^ 31"
    by simp_all
  have "\<exists>a'. ParseDevice ntfs_platform ntfs_adapter zero_superblock [] = Some (a', [ntfs_sample_file], True)
        \<and> length [ntfs_sample_file] < 2 ^ 31
        \<and> Adapter_DetectFilesystem ntfs_platform ntfs_adapter = NTFS
        \<and> Adapter_GetRecoveryStats a' = (1, 0)
        \<and> map_option NTFSParser_GetRecoveryStats (ntfs_parser a') = Some (1, 0)"
    using p l ntfs_adapter_detect statistics_count_emitted_records [OF p l]
    by (intro exI [of _ a']) (simp add: ntfs_sample_file_def)
  moreover have "\<exists>a'. ParseDevice apfs_platform apfs_adapter zero_superblock [] = Some (a', [apfs_sample_file], True)
        \<and> length [apfs_sample_file] < 2 ^ 31
        \<and> Adapter_DetectFilesystem apfs_platform apfs_adapter = APFS
        \<and> Adapter_GetRecoveryStats a' = (1, 0)
        \<and> map_option APFSParser_GetRecoveryStats (apfs_parser a') = Some (1, 0)"
    using q m apfs_adapter_detect statistics_count_emitted_records [OF q m]
    by (intro exI [of _ b']) (simp add: apfs_sample_file_def)
  ultimately show ?thesis by blast
qed

text \<open>
  Claim C1 as stated takes \<open>n\<close> and \<open>d\<close> from the metadata table of the device. The
  NTFS image holds a table of two valid records, one of them deletion-marked, so the
  claim asks for \<open>(2, 1)\<close>; the pass succeeds and both the adapter and the parser
  report \<open>(1, 0)\<close>.
\<close>

theorem statistics_count_emitted_records_counterexample:
  "table_total_found ntfs_table = 2 \<and> table_total_deleted ntfs_table = 1
   \<and> map_option (\<lambda>(a', entries', result).
         (Adapter_GetRecoveryStats a', map_option NTFSParser_GetRecoveryStats (ntfs_parser a'), result))
       (ParseDevice ntfs_platform ntfs_adapter zero_superblock [])
     = Some ((1, 0), Some (1, 0), True)"
proof -
  obtain a' where "ParseDevice ntfs_platform ntfs_adapter zero_superblock [] = Some (a', [ntfs_sample_file], True)"
      "Adapter_GetRecoveryStats a' = (1, 0)"
      "map_option NTFSParser_GetRecoveryStats (ntfs_parser a') = Some (1, 0)"
    using ntfs_adapter_parse [of zero_superblock] by blast
  then show ?thesis
    by (simp add: table_total_found_def table_total_deleted_def ntfs_table_def table_facts)
qed

section \<open>Corrupted records\<close>




section \<open>The zero image with the ext4 magic\<close>

text \<open>
  Claim C6, amended. For the one-MiB image whose bytes are all zero except the ext4 magic
  \<open>0xEF53\<close> at byte offset 1080, detection returns EXT-like. The subsequent parse does
  not read the image: whenever the device path contains none of \<open>ext4\<close>, \<open>sda\<close> and
  \<open>nvme\<close>, it fails, with no record and the statistics unchanged.
\<close>

theorem zero_image_with_ext4_magic:
  assumes "attached test_image (device_io a)"
  shows "Adapter_DetectFilesystem (image_file path test_image) a = EXT4
       \<and> (\<not> snd (ReadSuperblock (current_device_path (device_io a)) uninit) \<longrightarrow>
            (\<exists>a'. ParseDevice (image_file path test_image) a uninit [] = Some (a', [], False)
                 \<and> Adapter_GetRecoveryStats a' = Adapter_GetRecoveryStats a))"
proof -
  have o: "is_open (device_io a)"
    using assms by (simp add: attached_def)
  note d = attached_detect_test_image [OF assms, of path]
  show ?thesis
    using o d ParseDevice_EXT4_rejected [OF o d, of uninit "[]"]
    by (simp add: Adapter_DetectFilesystem_def)
qed

theorem zero_image_with_ext4_magic_witness:
  "attached test_image (device_io test_adapter)
   \<and> Adapter_DetectFilesystem test_platform test_adapter = EXT4
   \<and> \<not> snd (ReadSuperblock (current_device_path (device_io test_adapter)) zero_superblock)
   \<and> (\<exists>a'. ParseDevice test_platform test_adapter zero_superblock [] = Some (a', [], False)
          \<and> Adapter_GetRecoveryStats a' = (0, 0))"
proof -
  note t = zero_image_with_ext4_magic [OF test_adapter_facts(1), of test_path zero_superblock]
  show ?thesis
    using t test_adapter_facts by (simp add: test_platform_def path_tests)
qed

text \<open>
  Claim C6 as stated has the parse succeed with \<open>total_found = 0\<close>. On the image at the
  path of the test fixture, \<open>/tmp/test_device.bin\<close>, detection returns ext4 and
  \<open>ParseDevice\<close> returns false.
\<close>

theorem zero_image_with_ext4_magic_counterexample:
  "Adapter_DetectFilesystem test_platform test_adapter = EXT4
   \<and> map_option snd (ParseDevice test_platform test_adapter zero_superblock []) = Some ([], False)"
proof -
  have o: "is_open (device_io test_adapter)"
    using test_adapter_facts(1) by (simp add: attached_def)
  have d: "DetectFilesystem test_platform (device_io test_adapter) = EXT4"
    unfolding test_platform_def by (rule attached_detect_test_image [OF test_adapter_facts(1)])
  have r: "\<not> snd (ReadSuperblock (current_device_path (device_io test_adapter)) zero_superblock)"
    by (simp add: test_adapter_facts path_tests)
  obtain a' where "ParseDevice test_platform test_adapter zero_superblock [] = Some (a', [], False)"
    using ParseDevice_EXT4_rejected [OF o d r, of "[]"] by blast
  then show ?thesis
    using o d by (simp add: Adapter_DetectFilesystem_def)
qed

end
